theory Spec2Isabelle
  imports Complex_Main
begin

section \<open>Values, dictionaries and errors\<close>

text \<open>
  The analyzer of \<^verbatim>\<open>stock_analyzer.py\<close> passes Python dictionaries between its
  methods. A dictionary value is either \<^verbatim>\<open>None\<close> or a number; Python floats and ints
  are idealised as reals (no rounding, no infinity); where a computation of the
  analyzer can yield NaN, its result is a \<open>real option\<close> with \<open>None\<close> for NaN.
  A raised exception is a value of type \<open>error\<close>, returned on the left of a sum.
\<close>

datatype pyval = PNone | Num real

type_synonym pydict = "string \<rightharpoonup> pyval"

datatype error = TypeError | AttributeError

text \<open>Values of a breakdown dictionary: a fixed label, an f-string that renders one
  number after a fixed text, the \<^verbatim>\<open>n/m periods positive\<close> text, or a number of points.\<close>

datatype bval = Txt string | Fmt string real | Frac nat nat | Pts int

type_synonym breakdown = "string \<rightharpoonup> bval"

text \<open>\<^verbatim>\<open>d.get(k)\<close> and \<^verbatim>\<open>d.get(k, default)\<close>.\<close>

definition get :: "pydict \<Rightarrow> string \<Rightarrow> pyval" where
  "get d k = (case d k of None \<Rightarrow> PNone | Some v \<Rightarrow> v)"

definition get_default :: "pydict \<Rightarrow> string \<Rightarrow> real \<Rightarrow> pyval" where
  "get_default d k dflt = (case d k of None \<Rightarrow> Num dflt | Some v \<Rightarrow> v)"

text \<open>Truth value of a number or \<^verbatim>\<open>None\<close>, and of a dictionary or \<^verbatim>\<open>None\<close>.\<close>

fun truthy :: "pyval \<Rightarrow> bool" where
  "truthy PNone = False"
| "truthy (Num x) = (x \<noteq> 0)"

fun dict_truthy :: "pydict option \<Rightarrow> bool" where
  "dict_truthy None = False"
| "dict_truthy (Some d) = (d \<noteq> Map.empty)"

text \<open>Sequencing of computations that may raise.\<close>

definition and_then :: "error + 'a \<Rightarrow> ('a \<Rightarrow> error + 'b) \<Rightarrow> error + 'b" where
  "and_then m f = (case m of Inl e \<Rightarrow> Inl e | Inr x \<Rightarrow> f x)"

text \<open>An ordering comparison raises \<^verbatim>\<open>TypeError\<close> when an operand is \<^verbatim>\<open>None\<close>.\<close>

fun as_num :: "pyval \<Rightarrow> error + real" where
  "as_num PNone = Inl TypeError"
| "as_num (Num x) = Inr x"

definition py_gt :: "pyval \<Rightarrow> pyval \<Rightarrow> error + bool" where
  "py_gt a b = and_then (as_num a) (\<lambda>x. and_then (as_num b) (\<lambda>y. Inr (x > y)))"

text \<open>\<^verbatim>\<open>d.get(k, default) if d else default\<close> and \<^verbatim>\<open>d.get(k) if d else None\<close>.\<close>

fun guarded_get_default :: "pydict option \<Rightarrow> string \<Rightarrow> real \<Rightarrow> pyval" where
  "guarded_get_default None k dflt = Num dflt"
| "guarded_get_default (Some d) k dflt = (if d \<noteq> Map.empty then get_default d k dflt else Num dflt)"

fun guarded_get :: "pydict option \<Rightarrow> string \<Rightarrow> pyval" where
  "guarded_get None k = PNone"
| "guarded_get (Some d) k = (if d \<noteq> Map.empty then get d k else PNone)"

section \<open>Fundamental health (0-40 points)\<close>

text \<open>
  Each factor of \<^verbatim>\<open>score_fundamental_health\<close> is an \<^verbatim>\<open>if/elif\<close> chain on one entry
  of the dictionary and gives the points added and the label stored in the breakdown.
  A guard \<^verbatim>\<open>pe and 5 <= pe <= 25\<close> is false for \<^verbatim>\<open>None\<close> and for the number 0.
\<close>

fun pe_factor :: "pyval \<Rightarrow> int \<times> bval" where
  "pe_factor PNone = (0, Txt ''High/Unknown'')"
| "pe_factor (Num pe) =
     (if pe \<noteq> 0 \<and> 5 \<le> pe \<and> pe \<le> 25 then (8, Txt ''Excellent'')
      else if pe \<noteq> 0 \<and> pe < 5 then (4, Txt ''Very Low (Risky)'')
      else if pe \<noteq> 0 \<and> pe \<le> 35 then (3, Txt ''Acceptable'')
      else (0, Txt ''High/Unknown''))"

fun pb_factor :: "pyval \<Rightarrow> int \<times> bval" where
  "pb_factor PNone = (0, Txt ''High/Unknown'')"
| "pb_factor (Num pb) =
     (if pb \<noteq> 0 \<and> 0.5 \<le> pb \<and> pb \<le> 3 then (4, Txt ''Good'')
      else if pb \<noteq> 0 \<and> pb \<le> 5 then (2, Txt ''Acceptable'')
      else (0, Txt ''High/Unknown''))"

fun peg_factor :: "pyval \<Rightarrow> int \<times> bval" where
  "peg_factor PNone = (0, Txt ''High/Unknown'')"
| "peg_factor (Num peg) =
     (if peg \<noteq> 0 \<and> 0.5 \<le> peg \<and> peg \<le> 1.5 then (3, Txt ''Excellent'')
      else if peg \<noteq> 0 \<and> peg \<le> 2 then (1, Txt ''Acceptable'')
      else (0, Txt ''High/Unknown''))"

fun roe_factor :: "pyval \<Rightarrow> int \<times> bval" where
  "roe_factor PNone = (0, Txt ''Low/Unknown'')"
| "roe_factor (Num roe) =
     (if roe \<noteq> 0 \<and> roe \<ge> 0.15 then (8, Txt ''Excellent (>15%)'')
      else if roe \<noteq> 0 \<and> roe \<ge> 0.10 then (5, Txt ''Good (>10%)'')
      else if roe \<noteq> 0 \<and> roe \<ge> 0.05 then (2, Txt ''Acceptable (>5%)'')
      else (0, Txt ''Low/Unknown''))"

fun margin_factor :: "pyval \<Rightarrow> int \<times> bval" where
  "margin_factor PNone = (0, Txt ''Low/Unknown'')"
| "margin_factor (Num profit_margin) =
     (if profit_margin \<noteq> 0 \<and> profit_margin \<ge> 0.15 then (4, Txt ''Excellent (>15%)'')
      else if profit_margin \<noteq> 0 \<and> profit_margin \<ge> 0.08 then (2, Txt ''Good (>8%)'')
      else if profit_margin \<noteq> 0 \<and> profit_margin \<ge> 0.03 then (1, Txt ''Acceptable (>3%)'')
      else (0, Txt ''Low/Unknown''))"

fun growth_factor :: "pyval \<Rightarrow> int \<times> bval" where
  "growth_factor PNone = (0, Txt ''Declining/Unknown'')"
| "growth_factor (Num revenue_growth) =
     (if revenue_growth \<noteq> 0 \<and> revenue_growth \<ge> 0.10 then (3, Txt ''Strong (>10%)'')
      else if revenue_growth \<noteq> 0 \<and> revenue_growth \<ge> 0.05 then (2, Txt ''Good (>5%)'')
      else if revenue_growth \<noteq> 0 \<and> revenue_growth \<ge> 0 then (1, Txt ''Positive'')
      else (0, Txt ''Declining/Unknown''))"

text \<open>The debt factor tests \<^verbatim>\<open>is not None\<close>, so the number 0 is scored as low debt.\<close>

fun debt_factor :: "pyval \<Rightarrow> int \<times> bval" where
  "debt_factor PNone = (0, Txt ''Unknown'')"
| "debt_factor (Num debt_to_equity) =
     (if debt_to_equity \<le> 0.3 then (5, Txt ''Low Debt (<30%)'')
      else if debt_to_equity \<le> 0.6 then (3, Txt ''Moderate Debt (<60%)'')
      else if debt_to_equity \<le> 1.0 then (1, Txt ''High Debt (<100%)'')
      else (0, Txt ''Very High Debt''))"

fun dividend_factor :: "pyval \<Rightarrow> int \<times> bval" where
  "dividend_factor PNone = (0, Txt ''No Dividend'')"
| "dividend_factor (Num dividend_yield) =
     (if dividend_yield \<noteq> 0 \<and> 0.02 \<le> dividend_yield \<and> dividend_yield \<le> 0.06
        then (3, Fmt ''Healthy Yield'' (dividend_yield * 100))
      else if dividend_yield \<noteq> 0 \<and> dividend_yield \<le> 0.08
        then (2, Fmt ''Good Yield'' (dividend_yield * 100))
      else if dividend_yield \<noteq> 0 \<and> dividend_yield > 0
        then (1, Fmt ''Dividend Paying'' (dividend_yield * 100))
      else (0, Txt ''No Dividend''))"

fun payout_factor :: "pyval \<Rightarrow> int \<times> bval" where
  "payout_factor PNone = (0, Txt ''Unknown'')"
| "payout_factor (Num payout_ratio) =
     (if payout_ratio \<noteq> 0 \<and> 0.3 \<le> payout_ratio \<and> payout_ratio \<le> 0.6
        then (2, Txt ''Sustainable Payout'')
      else if payout_ratio \<noteq> 0 \<and> payout_ratio \<le> 0.8 then (1, Txt ''Moderate Payout'')
      else if payout_ratio \<noteq> 0 then (0, Txt ''High Payout Risk'')
      else (0, Txt ''Unknown''))"

definition score_fundamental_health :: "pydict option \<Rightarrow> int \<times> breakdown" where
  "score_fundamental_health fundamentals =
     (case fundamentals of
        None \<Rightarrow> (0, Map.empty)
      | Some f \<Rightarrow>
          if f = Map.empty then (0, Map.empty)
          else
            let max_score = 40;
                pe = pe_factor (get f ''pe_ratio'');
                pb = pb_factor (get f ''price_to_book'');
                peg = peg_factor (get f ''peg_ratio'');
                valuation_score = fst pe + fst pb + fst peg;
                roe = roe_factor (get f ''roe'');
                margin = margin_factor (get f ''profit_margin'');
                growth = growth_factor (get f ''revenue_growth'');
                profitability_score = fst roe + fst margin + fst growth;
                debt = debt_factor (get f ''debt_to_equity'');
                dividend = dividend_factor (get f ''dividend_yield'');
                payout = payout_factor (get f ''payout_ratio'');
                stability_score = fst debt + fst dividend + fst payout;
                score = valuation_score + profitability_score + stability_score
            in (min score max_score,
                [''pe_status'' \<mapsto> snd pe, ''pb_status'' \<mapsto> snd pb,
                 ''peg_status'' \<mapsto> snd peg, ''valuation_score'' \<mapsto> Pts valuation_score,
                 ''roe_status'' \<mapsto> snd roe, ''margin_status'' \<mapsto> snd margin,
                 ''growth_status'' \<mapsto> snd growth,
                 ''profitability_score'' \<mapsto> Pts profitability_score,
                 ''debt_status'' \<mapsto> snd debt, ''dividend_status'' \<mapsto> snd dividend,
                 ''payout_status'' \<mapsto> snd payout,
                 ''stability_score'' \<mapsto> Pts stability_score]))"

section \<open>Technical strength (0-30 points)\<close>

text \<open>\<^verbatim>\<open>sma and current > sma\<close>: the comparison is only made for a moving average that is
  a number other than 0, and raises when the current price is \<^verbatim>\<open>None\<close>.\<close>

fun above :: "pyval \<Rightarrow> pyval \<Rightarrow> error + bool" where
  "above current PNone = Inr False"
| "above current (Num sma) = (if sma \<noteq> 0 then py_gt current (Num sma) else Inr False)"

fun sma_200_label :: "bool \<Rightarrow> pyval \<Rightarrow> bval" where
  "sma_200_label up sma_200 =
     (if up then Txt ''Above SMA200 (Bull Market)''
      else if truthy sma_200 then Txt ''Below SMA200 (Bear Market)''
      else Txt ''Insufficient Data'')"

fun ma_alignment :: "pyval \<Rightarrow> pyval \<Rightarrow> bool" where
  "ma_alignment (Num sma_20) (Num sma_50) = (sma_20 \<noteq> 0 \<and> sma_50 \<noteq> 0 \<and> sma_20 > sma_50)"
| "ma_alignment _ _ = False"

fun rsi_factor :: "pyval \<Rightarrow> int \<times> bval" where
  "rsi_factor PNone = (0, Txt ''Unknown'')"
| "rsi_factor (Num rsi) =
     (if rsi \<noteq> 0 then
        (if 40 \<le> rsi \<and> rsi \<le> 60 then (3, Fmt ''Neutral Zone'' rsi)
         else if 30 \<le> rsi \<and> rsi \<le> 70 then (2, Fmt ''Normal Range'' rsi)
         else if rsi \<le> 30 then (1, Fmt ''Oversold'' rsi)
         else if rsi \<ge> 70 then (0, Fmt ''Overbought'' rsi)
         else (0, Fmt ''RSI:'' rsi))
      else (0, Txt ''Unknown''))"

fun volume_factor :: "pyval \<Rightarrow> error + (int \<times> bval)" where
  "volume_factor PNone = Inl TypeError"
| "volume_factor (Num volume_ratio) =
     Inr (if volume_ratio > 1.5 then (2, Txt ''High Volume (Strong Interest)'')
          else if volume_ratio > 1.2 then (1, Txt ''Above Average Volume'')
          else (0, Txt ''Normal Volume''))"

fun bb_factor :: "pyval \<Rightarrow> int \<times> bval" where
  "bb_factor PNone = (0, Txt ''Unknown'')"
| "bb_factor (Num bb_pos) =
     (if bb_pos \<noteq> 0 then
        (if 0.3 \<le> bb_pos \<and> bb_pos \<le> 0.7 then (3, Txt ''Middle of Bands (Stable)'')
         else if 0.1 \<le> bb_pos \<and> bb_pos \<le> 0.9 then (2, Txt ''Normal Range'')
         else if bb_pos \<le> 0.2 then (1, Txt ''Near Lower Band (Potential Bounce)'')
         else (0, Txt ''Near Upper Band (Resistance)''))
      else (0, Txt ''Unknown''))"

text \<open>Position analysis: the outer test is \<^verbatim>\<open>if week_52_pos:\<close>, the truth value of the
  entry, so both \<^verbatim>\<open>None\<close> and the number 0 take the \<^verbatim>\<open>else\<close> branch.\<close>

fun position_factor :: "pyval \<Rightarrow> int \<times> bval" where
  "position_factor PNone = (0, Txt ''Unknown'')"
| "position_factor (Num week_52_pos) =
     (if week_52_pos \<noteq> 0 then
        (if 0.5 \<le> week_52_pos \<and> week_52_pos \<le> 0.8
           then (5, Txt ''Strong Position (50-80% of range)'')
         else if 0.3 \<le> week_52_pos \<and> week_52_pos \<le> 0.9 then (3, Txt ''Good Position'')
         else if week_52_pos \<le> 0.3 then (2, Txt ''Near 52-week Low (Value Opportunity)'')
         else (1, Txt ''Near 52-week High (Resistance)''))
      else (0, Txt ''Unknown''))"

definition score_technical_strength :: "pydict option \<Rightarrow> error + (int \<times> breakdown)" where
  "score_technical_strength technical =
     (case technical of
        None \<Rightarrow> Inr (0, Map.empty)
      | Some t \<Rightarrow>
          if t = Map.empty then Inr (0, Map.empty)
          else
            let max_score = 30;
                current = get_default t ''current_price'' 0;
                sma_20 = get t ''sma_20'';
                sma_50 = get t ''sma_50'';
                sma_200 = get t ''sma_200''
            in
            and_then (above current sma_20) (\<lambda>up_20.
            and_then (above current sma_50) (\<lambda>up_50.
            and_then (above current sma_200) (\<lambda>up_200.
            and_then (py_gt (get_default t ''macd'' 0) (get_default t ''macd_signal'' 0)) (\<lambda>macd_up.
            and_then (volume_factor (get_default t ''volume_ratio'' 1)) (\<lambda>volume.
              let aligned = ma_alignment sma_20 sma_50;
                  trend_score = (if up_20 then 3 else 0) + (if up_50 then 4 else 0)
                                + (if up_200 then 5 else 0) + (if aligned then 3 else 0);
                  rsi = rsi_factor (get t ''rsi'');
                  bb = bb_factor (get t ''bb_position'');
                  momentum_score = fst rsi + (if macd_up then 2 else 0) + fst volume + fst bb;
                  position = position_factor (get t ''52_week_position'');
                  position_score = fst position;
                  score = trend_score + momentum_score + position_score
              in Inr (min score max_score,
                  [''sma_20_status'' \<mapsto> Txt (if up_20 then ''Above SMA20'' else ''Below SMA20''),
                   ''sma_50_status'' \<mapsto> Txt (if up_50 then ''Above SMA50'' else ''Below SMA50''),
                   ''sma_200_status'' \<mapsto> sma_200_label up_200 sma_200,
                   ''ma_alignment'' \<mapsto>
                      Txt (if aligned then ''Bullish Alignment'' else ''Bearish/Neutral''),
                   ''trend_score'' \<mapsto> Pts trend_score,
                   ''rsi_status'' \<mapsto> snd rsi,
                   ''macd_status'' \<mapsto>
                      Txt (if macd_up then ''Bullish Signal'' else ''Bearish Signal''),
                   ''volume_status'' \<mapsto> snd volume,
                   ''bb_status'' \<mapsto> snd bb,
                   ''momentum_score'' \<mapsto> Pts momentum_score,
                   ''52_week_status'' \<mapsto> snd position,
                   ''position_score'' \<mapsto> Pts position_score])))))))"

section \<open>Momentum and quality (0-30 points)\<close>

text \<open>\<^verbatim>\<open>sum([r > 0 for r in returns_list])\<close> over the entries that are not \<^verbatim>\<open>None\<close>.\<close>

fun is_positive :: "pyval \<Rightarrow> bool" where
  "is_positive PNone = False"
| "is_positive (Num r) = (r > 0)"

fun ret_1m_factor :: "pyval \<Rightarrow> int \<times> bval" where
  "ret_1m_factor PNone = (0, Txt ''Unknown'')"
| "ret_1m_factor (Num ret_1m) =
     (if ret_1m \<noteq> 0 \<and> ret_1m > 0.05 then (3, Fmt ''Strong'' (ret_1m * 100))
      else if ret_1m \<noteq> 0 \<and> ret_1m > 0 then (1, Fmt ''Positive'' (ret_1m * 100))
      else if ret_1m \<noteq> 0 then (0, Fmt ''Negative'' (ret_1m * 100))
      else (0, Txt ''Unknown''))"

fun ret_1y_factor :: "pyval \<Rightarrow> int \<times> bval" where
  "ret_1y_factor PNone = (0, Txt ''Unknown'')"
| "ret_1y_factor (Num ret_1y) =
     (if ret_1y \<noteq> 0 \<and> ret_1y > 0.15 then (4, Fmt ''Excellent'' (ret_1y * 100))
      else if ret_1y \<noteq> 0 \<and> ret_1y > 0.05 then (2, Fmt ''Good'' (ret_1y * 100))
      else if ret_1y \<noteq> 0 \<and> ret_1y > 0 then (1, Fmt ''Positive'' (ret_1y * 100))
      else if ret_1y \<noteq> 0 then (0, Fmt ''Negative'' (ret_1y * 100))
      else (0, Txt ''Unknown''))"

fun sharpe_factor :: "pyval \<Rightarrow> error + (int \<times> bval)" where
  "sharpe_factor PNone = Inl TypeError"
| "sharpe_factor (Num sharpe) =
     Inr (if sharpe > 1.0 then (6, Fmt ''Excellent'' sharpe)
          else if sharpe > 0.5 then (4, Fmt ''Good'' sharpe)
          else if sharpe > 0 then (2, Fmt ''Positive'' sharpe)
          else (0, Fmt ''Poor'' sharpe))"

fun sortino_factor :: "pyval \<Rightarrow> error + (int \<times> bval)" where
  "sortino_factor PNone = Inl TypeError"
| "sortino_factor (Num sortino) =
     Inr (if sortino > 1.0 then (2, Fmt ''Excellent'' sortino)
          else if sortino > 0.5 then (1, Fmt ''Good'' sortino)
          else (0, Fmt ''Needs Improvement'' sortino))"

fun volatility_factor :: "pyval \<Rightarrow> error + (int \<times> bval)" where
  "volatility_factor PNone = Inl TypeError"
| "volatility_factor (Num volatility) =
     Inr (if volatility < 0.2 then (2, Fmt ''Low Risk'' (volatility * 100))
          else if volatility < 0.4 then (1, Fmt ''Moderate Risk'' (volatility * 100))
          else (0, Fmt ''High Risk'' (volatility * 100)))"

fun drawdown_factor :: "pyval \<Rightarrow> error + (int \<times> bval)" where
  "drawdown_factor PNone = Inl TypeError"
| "drawdown_factor (Num max_dd) =
     Inr (if max_dd > - 0.1 then (3, Fmt ''Excellent (<10%:'' (max_dd * 100))
          else if max_dd > - 0.2 then (2, Fmt ''Good (<20%:'' (max_dd * 100))
          else if max_dd > - 0.3 then (1, Fmt ''Acceptable (<30%:'' (max_dd * 100))
          else (0, Fmt ''High Drawdown'' (max_dd * 100)))"

definition score_momentum_quality :: "pydict option \<Rightarrow> error + (int \<times> breakdown)" where
  "score_momentum_quality performance =
     (case performance of
        None \<Rightarrow> Inr (0, Map.empty)
      | Some p \<Rightarrow>
          if p = Map.empty then Inr (0, Map.empty)
          else
            let max_score = 30;
                ret_1w = get_default p ''return_1W'' 0;
                ret_1m = get_default p ''return_1M'' 0;
                ret_3m = get_default p ''return_3M'' 0;
                ret_1y = get_default p ''return_1Y'' 0;
                returns_list = filter (\<lambda>r. r \<noteq> PNone) [ret_1w, ret_1m, ret_3m, ret_1y];
                positive_periods = length (filter is_positive returns_list);
                m1 = ret_1m_factor ret_1m;
                y1 = ret_1y_factor ret_1y;
                performance_score = int positive_periods * 2 + fst m1 + fst y1
            in
            and_then (sharpe_factor (get_default p ''sharpe_ratio'' 0)) (\<lambda>sharpe.
            and_then (sortino_factor (get_default p ''sortino_ratio'' 0)) (\<lambda>sortino.
            and_then (volatility_factor (get_default p ''volatility'' 0)) (\<lambda>vol.
            and_then (drawdown_factor (get_default p ''max_drawdown'' 0)) (\<lambda>dd.
              let risk_score = fst sharpe + fst sortino + fst vol;
                  drawdown_score = fst dd;
                  score = performance_score + risk_score + drawdown_score
              in Inr (min score max_score,
                  [''positive_periods'' \<mapsto> Frac positive_periods (length returns_list),
                   ''1m_performance'' \<mapsto> snd m1,
                   ''1y_performance'' \<mapsto> snd y1,
                   ''performance_score'' \<mapsto> Pts performance_score,
                   ''sharpe_status'' \<mapsto> snd sharpe,
                   ''sortino_status'' \<mapsto> snd sortino,
                   ''volatility_status'' \<mapsto> snd vol,
                   ''risk_score'' \<mapsto> Pts risk_score,
                   ''drawdown_status'' \<mapsto> snd dd,
                   ''drawdown_score'' \<mapsto> Pts drawdown_score]))))))"

section \<open>Risk score\<close>

fun volatility_risk :: "pyval \<Rightarrow> error + int" where
  "volatility_risk PNone = Inl TypeError"
| "volatility_risk (Num volatility) =
     Inr (if volatility > 0.6 then 30
          else if volatility > 0.4 then 20
          else if volatility > 0.25 then 10
          else 5)"

fun beta_risk :: "pyval \<Rightarrow> error + int" where
  "beta_risk PNone = Inl TypeError"
| "beta_risk (Num beta) =
     Inr (if beta > 1.5 then 20
          else if beta > 1.2 then 15
          else if beta > 0.8 then 5
          else 10)"

fun leverage_risk :: "pyval \<Rightarrow> int" where
  "leverage_risk PNone = 10"
| "leverage_risk (Num debt_to_equity) =
     (if debt_to_equity > 1.5 then 25
      else if debt_to_equity > 1.0 then 15
      else if debt_to_equity > 0.5 then 5
      else 0)"

fun rsi_risk :: "pyval \<Rightarrow> error + int" where
  "rsi_risk PNone = Inl TypeError"
| "rsi_risk (Num rsi) =
     Inr (if rsi > 80 \<or> rsi < 20 then 8
          else if rsi > 70 \<or> rsi < 30 then 4
          else 0)"

fun bb_risk :: "pyval \<Rightarrow> error + int" where
  "bb_risk PNone = Inl TypeError"
| "bb_risk (Num bb_position) =
     Inr (if bb_position > 0.9 \<or> bb_position < 0.1 then 7
          else if bb_position > 0.8 \<or> bb_position < 0.2 then 3
          else 0)"

fun drawdown_risk :: "pyval \<Rightarrow> error + int" where
  "drawdown_risk PNone = Inl TypeError"
| "drawdown_risk (Num max_drawdown) =
     Inr (if max_drawdown < - 0.4 then 10
          else if max_drawdown < - 0.3 then 8
          else if max_drawdown < - 0.2 then 5
          else if max_drawdown < - 0.1 then 2
          else 0)"

text \<open>
  The first statement is \<^verbatim>\<open>performance.get('volatility', 0.3)\<close>, with no guard on
  \<^verbatim>\<open>performance\<close>: for \<^verbatim>\<open>None\<close> it raises \<^verbatim>\<open>AttributeError\<close>. The later reads of
  \<^verbatim>\<open>technical\<close>, \<^verbatim>\<open>fundamentals\<close> and \<^verbatim>\<open>max_drawdown\<close> are guarded.
\<close>

definition calculate_risk_score ::
  "pydict option \<Rightarrow> pydict option \<Rightarrow> pydict option \<Rightarrow> error + (int \<times> breakdown)" where
  "calculate_risk_score technical performance fundamentals =
     (case performance of
        None \<Rightarrow> Inl AttributeError
      | Some p \<Rightarrow>
          and_then (volatility_risk (get_default p ''volatility'' 0.3)) (\<lambda>vol_risk.
          and_then (beta_risk (guarded_get_default fundamentals ''beta'' 1.0)) (\<lambda>beta_risk.
          let leverage_risk = leverage_risk (guarded_get fundamentals ''debt_to_equity'') in
          and_then (rsi_risk (guarded_get_default technical ''rsi'' 50)) (\<lambda>rsi_part.
          and_then (bb_risk (guarded_get_default technical ''bb_position'' 0.5)) (\<lambda>bb_part.
          let tech_risk = rsi_part + bb_part in
          and_then (drawdown_risk (guarded_get_default performance ''max_drawdown'' 0)) (\<lambda>dd_risk.
            let risk_score = vol_risk + beta_risk + leverage_risk + tech_risk + dd_risk;
                risk_percentage = min 100 risk_score
            in Inr (risk_percentage,
                [''volatility_risk'' \<mapsto> Pts vol_risk,
                 ''beta_risk'' \<mapsto> Pts beta_risk,
                 ''leverage_risk'' \<mapsto> Pts leverage_risk,
                 ''technical_risk'' \<mapsto> Pts tech_risk,
                 ''drawdown_risk'' \<mapsto> Pts dd_risk])))))))"

section \<open>Recommendation\<close>

text \<open>The seven strings returned by \<^verbatim>\<open>get_investment_recommendation\<close>.\<close>

datatype recommendation =
  STRONG_BUY | BUY | MODERATE_BUY | HOLD | WEAK_HOLD | CONSIDER_SELLING | SELL

fun recommendation_text :: "recommendation \<Rightarrow> string" where
  "recommendation_text STRONG_BUY = ''STRONG BUY''"
| "recommendation_text BUY = ''BUY''"
| "recommendation_text MODERATE_BUY = ''MODERATE BUY''"
| "recommendation_text HOLD = ''HOLD''"
| "recommendation_text WEAK_HOLD = ''WEAK HOLD''"
| "recommendation_text CONSIDER_SELLING = ''CONSIDER SELLING''"
| "recommendation_text SELL = ''SELL''"

text \<open>The upside potential is a float that may be NaN (\<open>None\<close>): the comparison
  \<^verbatim>\<open>upside_potential > c\<close> is false for NaN.\<close>

fun float_gt :: "real option \<Rightarrow> real \<Rightarrow> bool" where
  "float_gt None c = False"
| "float_gt (Some x) c = (x > c)"

definition get_investment_recommendation ::
  "int \<Rightarrow> int \<Rightarrow> real option \<Rightarrow> recommendation" where
  "get_investment_recommendation total_score risk_score upside_potential =
     (if total_score \<ge> 80 \<and> risk_score < 40 \<and> float_gt upside_potential 0.15 then STRONG_BUY
      else if total_score \<ge> 70 \<and> risk_score < 50 \<and> float_gt upside_potential 0.10 then BUY
      else if total_score \<ge> 60 \<and> risk_score < 60 then MODERATE_BUY
      else if total_score \<ge> 50 \<and> risk_score < 70 then HOLD
      else if total_score \<ge> 40 then WEAK_HOLD
      else if total_score \<ge> 30 then CONSIDER_SELLING
      else SELL)"

text \<open>The order of the decision table, read bottom-up: SELL is lowest, STRONG BUY highest.\<close>

fun rank :: "recommendation \<Rightarrow> nat" where
  "rank SELL = 0"
| "rank CONSIDER_SELLING = 1"
| "rank WEAK_HOLD = 2"
| "rank HOLD = 3"
| "rank MODERATE_BUY = 4"
| "rank BUY = 5"
| "rank STRONG_BUY = 6"

section \<open>Target pricing\<close>

record pricing =
  current_price :: real
  conservative_buy_price :: real
  aggressive_buy_price :: real
  target_price :: real
  upside_potential :: "real option"
  support_level :: pyval
  resistance_level :: pyval

text \<open>Method 1, the P/E based target: used when the fundamentals are a non-empty
  dictionary whose \<^verbatim>\<open>pe_ratio\<close> and \<^verbatim>\<open>earnings_growth\<close> are both numbers other than 0.\<close>

fun pe_method :: "pydict option \<Rightarrow> real \<Rightarrow> real list" where
  "pe_method fundamentals price =
     (case (guarded_get fundamentals ''pe_ratio'', guarded_get fundamentals ''earnings_growth'') of
        (Num current_pe, Num growth_rate) \<Rightarrow>
          if current_pe \<noteq> 0 \<and> growth_rate \<noteq> 0 then
            (let fair_pe = min (max (growth_rate * 100 * 0.8) 10) 25;
                 estimated_eps = price / current_pe
             in [estimated_eps * fair_pe])
          else []
      | _ \<Rightarrow> [])"

text \<open>Method 2, the technical resistance, kept only when above the current price.\<close>

fun resistance_method :: "pydict option \<Rightarrow> real \<Rightarrow> real list" where
  "resistance_method technical price =
     (case guarded_get technical ''resistance_level'' of
        Num resistance \<Rightarrow> if resistance \<noteq> 0 \<and> resistance > price then [resistance] else []
      | PNone \<Rightarrow> [])"

text \<open>Method 3, the 52-week high adjusted for momentum; the momentum score is only
  read, and only compared, when the 52-week high is a number other than 0.\<close>

fun high_method :: "pydict option \<Rightarrow> pydict option \<Rightarrow> error + real list" where
  "high_method technical performance =
     (case guarded_get technical ''52_week_high'' of
        Num week_52_high \<Rightarrow>
          if week_52_high \<noteq> 0 then
            and_then (as_num (guarded_get_default performance ''momentum_score'' 50)) (\<lambda>momentum_score.
              Inr [if momentum_score > 70 then week_52_high * 1.1
                   else if momentum_score > 50 then week_52_high
                   else week_52_high * 0.9])
          else Inr []
      | PNone \<Rightarrow> Inr [])"

definition mean :: "real list \<Rightarrow> real" where
  "mean xs = sum_list xs / real (length xs)"

text \<open>
  \<^verbatim>\<open>calculate_target_pricing\<close>. A current price or support level of \<^verbatim>\<open>None\<close> raises
  \<^verbatim>\<open>TypeError\<close> in the arithmetic on it. The last computation divides by the current
  price, which is a numpy float: it is the last close of the frame in the dictionary
  built by \<^verbatim>\<open>calculate_technical_indicators\<close>. For a price of 0 the target is 0 as
  well, the quotient 0/0 is NaN (with a warning, no exception), and the upside
  potential is \<open>None\<close>.
\<close>

definition calculate_target_pricing ::
  "string \<Rightarrow> pydict option \<Rightarrow> pydict option \<Rightarrow> pydict option \<Rightarrow> error + pricing" where
  "calculate_target_pricing symbol fundamentals technical performance =
     and_then (as_num (guarded_get_default technical ''current_price'' 100)) (\<lambda>price.
     and_then (as_num (guarded_get_default technical ''support_level'' (price * 0.9))) (\<lambda>support.
       let conservative_buy = min (price * 0.85) support;
           aggressive_buy = price * 0.90
       in
       and_then (high_method technical performance) (\<lambda>adjusted.
         let target_methods = pe_method fundamentals price @ resistance_method technical price
                              @ adjusted;
             target = (if target_methods \<noteq> [] then mean target_methods else price * 1.15);
             target = max (price * 1.05) (min target (price * 2.0))
         in
         Inr \<lparr>current_price = price,
              conservative_buy_price = conservative_buy,
              aggressive_buy_price = aggressive_buy,
              target_price = target,
              upside_potential = (if price = 0 then None else Some ((target - price) / price)),
              support_level =
                (if dict_truthy technical then guarded_get technical ''support_level''
                 else Num (price * 0.95)),
              resistance_level =
                (if dict_truthy technical then guarded_get technical ''resistance_level''
                 else Num (price * 1.05))\<rparr>)))"

section \<open>Price frames and the pandas operations used on them\<close>

text \<open>
  A row of \<^verbatim>\<open>daily_prices\<close>; a frame is the list of its rows and \<^verbatim>\<open>df\<close> may be
  \<^verbatim>\<open>None\<close>. The date is an ordinal, the volume a count of shares (column type INTEGER).
  The field for the opening price is named \<open>open_price\<close>.
\<close>

record bar =
  date :: nat
  open_price :: real
  high :: real
  low :: real
  close :: real
  adj_close :: real
  volume :: nat

type_synonym frame = "bar list"

text \<open>\<^verbatim>\<open>s.tail(n)\<close>: the last \<open>n\<close> entries (all of them when there are fewer).\<close>

definition tail :: "nat \<Rightarrow> 'a list \<Rightarrow> 'a list" where
  "tail n xs = drop (length xs - n) xs"

text \<open>
  The last value of \<^verbatim>\<open>s.rolling(window=w).mean()\<close>. With the default
  \<^verbatim>\<open>min_periods = w\<close> it is NaN, here \<open>None\<close>, when the series is shorter than the
  window or the window holds a NaN; the series is given with \<open>None\<close> for NaN.
\<close>

definition rolling_mean_last :: "nat \<Rightarrow> real option list \<Rightarrow> real option" where
  "rolling_mean_last w xs =
     (if 0 < w \<and> w \<le> length xs then map_option mean (those (tail w xs)) else None)"

text \<open>\<^verbatim>\<open>s.std()\<close>, the sample standard deviation (\<^verbatim>\<open>ddof=1\<close>): NaN for fewer than two
  values.\<close>

definition sample_std :: "real list \<Rightarrow> real option" where
  "sample_std xs =
     (if length xs < 2 then None
      else Some (sqrt (sum_list (map (\<lambda>x. (x - mean xs)\<^sup>2) xs) / (real (length xs) - 1))))"

text \<open>\<^verbatim>\<open>s.diff()\<close> and \<^verbatim>\<open>s.pct_change()\<close> without their leading NaN.\<close>

definition diffs :: "real list \<Rightarrow> real list" where
  "diffs xs = map (\<lambda>(a, b). b - a) (zip xs (tl xs))"

definition pct_change :: "real list \<Rightarrow> real list" where
  "pct_change xs = map (\<lambda>(a, b). b / a - 1) (zip xs (tl xs))"

text \<open>\<^verbatim>\<open>s.ewm(span=n).mean()\<close> with the default \<^verbatim>\<open>adjust=True\<close>: at each position the
  average of the values so far, the value \<open>i\<close> steps back weighted by \<open>(1 - \<alpha>)^i\<close>,
  \<open>\<alpha> = 2 / (n + 1)\<close>.\<close>

definition ewm_last :: "real \<Rightarrow> real list \<Rightarrow> real" where
  "ewm_last alpha xs =
     sum_list (map (\<lambda>i. (1 - alpha) ^ i * rev xs ! i) [0..<length xs])
       / sum_list (map (\<lambda>i. (1 - alpha) ^ i) [0..<length xs])"

definition ewm_mean :: "nat \<Rightarrow> real list \<Rightarrow> real list" where
  "ewm_mean n xs = map (\<lambda>t. ewm_last (2 / (real n + 1)) (take (Suc t) xs)) [0..<length xs]"

text \<open>\<^verbatim>\<open>np.polyfit(x, y, 1)[0]\<close>: the slope of the least-squares line.\<close>

definition polyfit_slope :: "real list \<Rightarrow> real list \<Rightarrow> real" where
  "polyfit_slope xs ys =
     sum_list (map (\<lambda>(x, y). (x - mean xs) * (y - mean ys)) (zip xs ys))
       / sum_list (map (\<lambda>x. (x - mean xs)\<^sup>2) xs)"

text \<open>
  The values of \<^verbatim>\<open>s\<close> that equal \<^verbatim>\<open>s.rolling(window=5, center=True).max()\<close>
  (respectively \<^verbatim>\<open>.min()\<close>) at their own position: the centred window covers two
  positions on each side and is NaN within two positions of either end.
\<close>

definition local_maxima :: "real list \<Rightarrow> real list" where
  "local_maxima xs =
     map (\<lambda>i. xs ! i)
       (filter (\<lambda>i. Max (set (take 5 (drop (i - 2) xs))) = xs ! i) [2..<length xs - 2])"

definition local_minima :: "real list \<Rightarrow> real list" where
  "local_minima xs =
     map (\<lambda>i. xs ! i)
       (filter (\<lambda>i. Min (set (take 5 (drop (i - 2) xs))) = xs ! i) [2..<length xs - 2])"

section \<open>Technical indicators\<close>

definition get_default_technical_indicators :: "frame option \<Rightarrow> pydict" where
  "get_default_technical_indicators df =
     (let current_price =
            (case df of
               None \<Rightarrow> 100
             | Some bars \<Rightarrow> if length bars > 0 then close (last bars) else 100)
      in [''current_price'' \<mapsto> Num current_price,
          ''sma_20'' \<mapsto> Num current_price,
          ''sma_50'' \<mapsto> Num current_price,
          ''sma_200'' \<mapsto> PNone,
          ''rsi'' \<mapsto> Num 50,
          ''bb_position'' \<mapsto> Num 0.5,
          ''bb_upper'' \<mapsto> Num (current_price * 1.1),
          ''bb_lower'' \<mapsto> Num (current_price * 0.9),
          ''macd'' \<mapsto> Num 0,
          ''macd_signal'' \<mapsto> Num 0,
          ''macd_histogram'' \<mapsto> Num 0,
          ''volume_ratio'' \<mapsto> Num 1,
          ''atr'' \<mapsto> Num (current_price * 0.02),
          ''52_week_high'' \<mapsto> Num current_price,
          ''52_week_low'' \<mapsto> Num current_price,
          ''52_week_position'' \<mapsto> Num 0.5,
          ''trend_strength'' \<mapsto> Num 0,
          ''support_level'' \<mapsto> Num (current_price * 0.95),
          ''resistance_level'' \<mapsto> Num (current_price * 1.05),
          ''volatility'' \<mapsto> Num 0.3])"

definition calculate_trend_strength :: "frame \<Rightarrow> real" where
  "calculate_trend_strength df =
     (if length df < 20 then 0
      else
        let y = map close (tail 20 df);
            x = map real [0..<length y]
        in if length x < 2 then 0
           else
             let slope = polyfit_slope x y;
                 price_range = Max (set y) - Min (set y)
             in if price_range > 0
                then max (- 1) (min 1 ((slope * real (length x)) / price_range))
                else 0)"

definition calculate_support_resistance :: "frame \<Rightarrow> real \<times> real" where
  "calculate_support_resistance df =
     (if length df < 20 then
        (let current = close (last df) in (current * 0.95, current * 1.05))
      else
        let period = min 50 (length df);
            recent_data = tail period df;
            resistance_levels = local_maxima (map high recent_data);
            support_levels = local_minima (map low recent_data);
            current_price = close (last df);
            above_current = filter (\<lambda>v. v > current_price) resistance_levels;
            resistance = (if above_current \<noteq> [] then Min (set above_current)
                          else current_price * 1.05);
            below_current = filter (\<lambda>v. v < current_price) support_levels;
            support = (if below_current \<noteq> [] then Max (set below_current)
                       else current_price * 0.95)
        in (support, resistance))"

text \<open>
  RSI of the last row. The first difference is NaN and \<^verbatim>\<open>where\<close> replaces it by 0.
  With no loss in the window the quotient is infinite and the RSI 100, unless there is
  no gain either: then it is NaN and the result falls back to 50.
\<close>

definition rsi_last :: "real list \<Rightarrow> real" where
  "rsi_last closes =
     (let window = min 14 (length closes div 3) in
      if window \<ge> 2 then
        (let gains = Some 0 # map (\<lambda>d. Some (if d > 0 then d else 0)) (diffs closes);
             losses = Some 0 # map (\<lambda>d. Some (if d < 0 then - d else 0)) (diffs closes)
         in case (rolling_mean_last window gains, rolling_mean_last window losses) of
              (Some gain, Some loss) \<Rightarrow>
                if loss = 0 then (if gain = 0 then 50 else 100)
                else 100 - (100 / (1 + gain / loss))
            | _ \<Rightarrow> 50)
      else 50)"

text \<open>Bollinger bands of the last row: upper band, lower band (NaN as \<open>None\<close>).\<close>

definition bollinger_last :: "real list \<Rightarrow> real option \<times> real option" where
  "bollinger_last closes =
     (let bb_window = min 20 (length closes div 2);
          window = (if bb_window \<ge> 5 then tail bb_window closes else closes)
      in case sample_std window of
           None \<Rightarrow> (None, None)
         | Some bb_std \<Rightarrow> (Some (mean window + bb_std * 2), Some (mean window - bb_std * 2)))"

text \<open>MACD line, signal and histogram of the last row; the columns exist only for
  26 rows or more, and \<^verbatim>\<open>latest.get('macd', 0)\<close> is 0 without them.\<close>

definition macd_last :: "real list \<Rightarrow> real \<times> real \<times> real" where
  "macd_last closes =
     (if length closes \<ge> 26 then
        (let macd = map (\<lambda>(a, b). a - b) (zip (ewm_mean 12 closes) (ewm_mean 26 closes));
             macd_signal = ewm_mean 9 macd
         in (last macd, last macd_signal, last macd - last macd_signal))
      else (0, 0, 0))"

text \<open>True range per row; the first row has no previous close and is NaN.\<close>

definition true_range :: "frame \<Rightarrow> real option list" where
  "true_range df =
     (case df of
        [] \<Rightarrow> []
      | _ # rest \<Rightarrow>
          None # map (\<lambda>(prev, b). Some (max (high b - low b)
                                     (max \<bar>high b - close prev\<bar> \<bar>low b - close prev\<bar>)))
                   (zip df rest))"

text \<open>
  The indicator dictionary. The body of the \<^verbatim>\<open>try\<close> block raises nothing on a frame
  of numbers, so the \<^verbatim>\<open>except\<close> branch has no counterpart here.
  A notna test on a value that is NaN, \<open>None\<close> here, selects the fallback.
  The percent changes divide by the previous close: for a close of 0 pandas yields an
  infinite value or NaN, which the reals do not have, so the volatility entry of such a
  frame is outside what is modelled; no statement below depends on its value.
\<close>

definition calculate_technical_indicators :: "frame option \<Rightarrow> pydict" where
  "calculate_technical_indicators df0 =
     (case df0 of
        None \<Rightarrow> get_default_technical_indicators df0
      | Some unsorted \<Rightarrow>
          if length unsorted < 10 then get_default_technical_indicators df0
          else
            let df = sort_key date unsorted;
                n = length df;
                closes = map close df;
                sma_20 = rolling_mean_last (min 20 n) (map Some closes);
                sma_50 = rolling_mean_last (min 50 n) (map Some closes);
                sma_200 = (if n \<ge> 200 then rolling_mean_last (min 200 n) (map Some closes)
                           else None);
                rsi = rsi_last closes;
                bb = bollinger_last closes;
                macd = macd_last closes;
                volume_sma = rolling_mean_last (min 20 n) (map (\<lambda>b. Some (real (volume b))) df);
                volume_ratio =
                  (case volume_sma of
                     None \<Rightarrow> None
                   | Some v \<Rightarrow> if v = 0 then None else Some (real (volume (last df)) / v));
                atr = rolling_mean_last (min 14 n) (true_range df);
                week_52_period = min 252 n;
                week_52_high = Max (set (map high (tail week_52_period df)));
                week_52_low = Min (set (map low (tail week_52_period df)));
                current_price = close (last df);
                bb_position =
                  (case bb of
                     (Some bb_upper, Some bb_lower) \<Rightarrow>
                       if bb_upper - bb_lower > 0
                       then (current_price - bb_lower) / (bb_upper - bb_lower) else 0.5
                   | _ \<Rightarrow> 0.5);
                trend_strength = calculate_trend_strength df;
                support_resistance = calculate_support_resistance df
            in [''current_price'' \<mapsto> Num current_price,
                ''sma_20'' \<mapsto> Num (case sma_20 of Some v \<Rightarrow> v | None \<Rightarrow> current_price),
                ''sma_50'' \<mapsto> Num (case sma_50 of Some v \<Rightarrow> v | None \<Rightarrow> current_price),
                ''sma_200'' \<mapsto> (case sma_200 of Some v \<Rightarrow> Num v | None \<Rightarrow> PNone),
                ''rsi'' \<mapsto> Num rsi,
                ''bb_position'' \<mapsto> Num bb_position,
                ''bb_upper'' \<mapsto> (case fst bb of Some v \<Rightarrow> Num v | None \<Rightarrow> PNone),
                ''bb_lower'' \<mapsto> (case snd bb of Some v \<Rightarrow> Num v | None \<Rightarrow> PNone),
                ''macd'' \<mapsto> Num (fst macd),
                ''macd_signal'' \<mapsto> Num (fst (snd macd)),
                ''macd_histogram'' \<mapsto> Num (snd (snd macd)),
                ''volume_ratio'' \<mapsto> Num (case volume_ratio of Some v \<Rightarrow> v | None \<Rightarrow> 1),
                ''atr'' \<mapsto> Num (case atr of Some v \<Rightarrow> v | None \<Rightarrow> 0),
                ''52_week_high'' \<mapsto> Num week_52_high,
                ''52_week_low'' \<mapsto> Num week_52_low,
                ''52_week_position'' \<mapsto>
                   Num (if week_52_high \<noteq> week_52_low
                        then (current_price - week_52_low) / (week_52_high - week_52_low)
                        else 0.5),
                ''trend_strength'' \<mapsto> Num trend_strength,
                ''support_level'' \<mapsto> Num (fst support_resistance),
                ''resistance_level'' \<mapsto> Num (snd support_resistance),
                ''volatility'' \<mapsto>
                   (if n > 10
                    then (case sample_std (pct_change closes) of
                            Some sd \<Rightarrow> Num (sd * sqrt 252) | None \<Rightarrow> PNone)
                    else Num 0.3)])"

section \<open>Performance and risk metrics\<close>

text \<open>The period returns, a dictionary of floats built by the loop over
  \<^verbatim>\<open>periods\<close>: a period is entered only when the frame has more rows than its offset
  and the old price is positive.\<close>

definition return_over :: "real list \<Rightarrow> nat \<Rightarrow> real option" where
  "return_over closes days =
     (if length closes > days then
        (let current_price = last closes;
             old_price = closes ! (length closes - (days + 1))
         in if old_price > 0 then Some ((current_price - old_price) / old_price) else None)
      else None)"

definition periods :: "(string \<times> nat) list" where
  "periods = [(''1W'', 5), (''1M'', 21), (''3M'', 63), (''6M'', 126), (''1Y'', 252)]"

definition period_returns :: "real list \<Rightarrow> (string \<rightharpoonup> real)" where
  "period_returns closes =
     fold (\<lambda>(period_name, days) returns.
             case return_over closes days of
               None \<Rightarrow> returns
             | Some r \<Rightarrow> returns(''return_'' @ period_name \<mapsto> r))
          periods Map.empty"

definition weights :: "(string \<times> real) list" where
  "weights = [(''1W'', 0.3), (''1M'', 0.3), (''3M'', 0.2), (''6M'', 0.1), (''1Y'', 0.1)]"

definition contribution :: "real \<Rightarrow> real \<Rightarrow> real" where
  "contribution period_return weight =
     (if period_return > 0.2 then 25 * weight
      else if period_return > 0.1 then 15 * weight
      else if period_return > 0.05 then 10 * weight
      else if period_return > 0 then 5 * weight
      else if period_return > - 0.05 then - 5 * weight
      else if period_return > - 0.1 then - 10 * weight
      else - 20 * weight)"

definition calculate_momentum_score :: "(string \<rightharpoonup> real) \<Rightarrow> real" where
  "calculate_momentum_score returns =
     (let score = fold (\<lambda>(period, weight) score.
                          case returns (''return_'' @ period) of
                            None \<Rightarrow> score
                          | Some period_return \<Rightarrow> score + contribution period_return weight)
                       weights 50
      in max 0 (min 100 score))"

text \<open>\<^verbatim>\<open>s.quantile(q)\<close> with linear interpolation between the two nearest order
  statistics; \<^verbatim>\<open>s.cumprod()\<close>; \<^verbatim>\<open>s.expanding().max()\<close>.\<close>

definition quantile :: "real \<Rightarrow> real list \<Rightarrow> real" where
  "quantile q xs =
     (let s = sort xs;
          pos = q * (real (length s) - 1);
          lo = nat \<lfloor>pos\<rfloor>;
          hi = nat \<lceil>pos\<rceil>
      in s ! lo + (s ! hi - s ! lo) * (pos - real lo))"

definition cumprod :: "real list \<Rightarrow> real list" where
  "cumprod xs = map (\<lambda>k. prod_list (take (Suc k) xs)) [0..<length xs]"

definition expanding_max :: "real list \<Rightarrow> real list" where
  "expanding_max xs = map (\<lambda>k. Max (set (take (Suc k) xs))) [0..<length xs]"

text \<open>
  The six risk statistics: volatility, VaR, Sharpe ratio, Sortino ratio, maximum
  drawdown, downside deviation. The downside deviation of a single negative return is
  NaN in pandas (a sample deviation of one value); the dictionary entry is then
  recorded as \<open>PNone\<close>, and the test \<^verbatim>\<open>downside_deviation > 0\<close> is false for it.
\<close>

record risk_stats =
  rs_volatility :: pyval
  rs_var_95 :: pyval
  rs_sharpe_ratio :: pyval
  rs_sortino_ratio :: pyval
  rs_max_drawdown :: pyval
  rs_downside_deviation :: pyval

definition default_risk_stats :: risk_stats where
  "default_risk_stats =
     \<lparr>rs_volatility = Num 0.3, rs_var_95 = Num (- 0.05), rs_sharpe_ratio = Num 0,
      rs_sortino_ratio = Num 0, rs_max_drawdown = Num 0, rs_downside_deviation = Num 0.2\<rparr>"

definition computed_risk_stats :: "real list \<Rightarrow> risk_stats" where
  "computed_risk_stats daily_returns =
     (let volatility = (case sample_std daily_returns of
                          Some sd \<Rightarrow> Some (sd * sqrt 252) | None \<Rightarrow> None);
          var_95 = quantile 0.05 daily_returns;
          excess_return = mean daily_returns * 252 - 0.02;
          sharpe_ratio = (case volatility of
                            Some v \<Rightarrow> if v > 0 then excess_return / v else 0
                          | None \<Rightarrow> 0);
          cumulative_returns = cumprod (map (\<lambda>r. 1 + r) daily_returns);
          rolling_max = expanding_max cumulative_returns;
          drawdown = map (\<lambda>(c, m). (c - m) / m) (zip cumulative_returns rolling_max);
          max_drawdown = Min (set drawdown);
          negative_returns = filter (\<lambda>r. r < 0) daily_returns;
          downside_deviation =
            (if length negative_returns > 0
             then (case sample_std negative_returns of
                     Some sd \<Rightarrow> Some (sd * sqrt 252) | None \<Rightarrow> None)
             else Some 0);
          sortino_ratio = (case downside_deviation of
                             Some d \<Rightarrow> if d > 0 then excess_return / d else 0
                           | None \<Rightarrow> 0)
      in \<lparr>rs_volatility = (case volatility of Some v \<Rightarrow> Num v | None \<Rightarrow> PNone),
          rs_var_95 = Num var_95,
          rs_sharpe_ratio = Num sharpe_ratio,
          rs_sortino_ratio = Num sortino_ratio,
          rs_max_drawdown = Num max_drawdown,
          rs_downside_deviation =
            (case downside_deviation of Some d \<Rightarrow> Num d | None \<Rightarrow> PNone)\<rparr>)"

text \<open>
  \<^verbatim>\<open>calculate_performance_metrics\<close>: the empty dictionary for no frame or fewer than
  10 rows; otherwise the period returns followed by the risk statistics and the
  momentum score. The daily returns are the percent changes with the leading NaN
  dropped, one fewer than the rows.
\<close>

definition calculate_performance_metrics :: "frame option \<Rightarrow> pydict" where
  "calculate_performance_metrics df0 =
     (case df0 of
        None \<Rightarrow> Map.empty
      | Some df \<Rightarrow>
          if length df < 10 then Map.empty
          else
            let closes = map close df;
                returns = period_returns closes;
                daily_returns = pct_change closes;
                stats = (if length daily_returns > 10 then computed_risk_stats daily_returns
                         else default_risk_stats);
                momentum_score = calculate_momentum_score returns
            in (map_option Num \<circ> returns)
                 ++ [''volatility'' \<mapsto> rs_volatility stats,
                     ''var_95'' \<mapsto> rs_var_95 stats,
                     ''sharpe_ratio'' \<mapsto> rs_sharpe_ratio stats,
                     ''sortino_ratio'' \<mapsto> rs_sortino_ratio stats,
                     ''max_drawdown'' \<mapsto> rs_max_drawdown stats,
                     ''downside_deviation'' \<mapsto> rs_downside_deviation stats,
                     ''momentum_score'' \<mapsto> Num momentum_score])"

section \<open>Storage\<close>

text \<open>
  The tables of \<^verbatim>\<open>database_manager.py\<close> that the analyzer touches. Each query method
  catches the errors of the database engine and answers \<^verbatim>\<open>None\<close> or \<^verbatim>\<open>False\<close>;
  the engine itself is outside this development and always answers.
\<close>

record company =
  company_name :: "string option"
  company_sector :: "string option"

record analysis_row =
  row_symbol :: string
  row_analysis_date :: nat
  row_total_score :: int
  row_fundamental_score :: int
  row_technical_score :: int
  row_momentum_score :: int
  row_risk_score :: int
  row_recommendation :: string
  row_current_price :: real
  row_target_price :: real
  row_conservative_buy_price :: real
  row_aggressive_buy_price :: real
  row_upside_potential :: "real option"
  row_risk_percentage :: real

record database =
  daily_prices :: "string \<Rightarrow> bar list"
  fundamentals_table :: "string \<Rightarrow> (nat \<times> pydict) list"
  companies :: "string \<Rightarrow> company option"
  analysis_results :: "analysis_row list"

text \<open>The newest \<open>days\<close> rows of the symbol, in ascending date order; \<^verbatim>\<open>None\<close> when
  there is none.\<close>

definition get_price_data :: "database \<Rightarrow> string \<Rightarrow> nat \<Rightarrow> frame option" where
  "get_price_data db symbol days =
     (let df = take days (rev (sort_key date (daily_prices db symbol)))
      in if df \<noteq> [] then Some (sort_key date df) else None)"

text \<open>The row of the symbol with the latest date, as a dictionary of its columns.\<close>

definition get_latest_fundamentals :: "database \<Rightarrow> string \<Rightarrow> pydict option" where
  "get_latest_fundamentals db symbol =
     (case rev (sort_key fst (fundamentals_table db symbol)) of
        [] \<Rightarrow> None
      | row # _ \<Rightarrow> Some (snd row))"

definition get_company :: "database \<Rightarrow> string \<Rightarrow> company option" where
  "get_company db symbol = companies db symbol"

section \<open>Complete analysis\<close>

text \<open>The dictionary returned by \<^verbatim>\<open>analyze_stock\<close>; the field names carry the prefix
  \<open>r_\<close>, and the four entries of \<^verbatim>\<open>breakdowns\<close> are fields of their own.\<close>

record analysis_result =
  r_symbol :: string
  r_company_name :: "string option"
  r_sector :: "string option"
  r_total_score :: int
  r_fundamental_score :: int
  r_technical_score :: int
  r_momentum_score :: int
  r_risk_score :: int
  r_risk_percentage :: int
  r_recommendation :: recommendation
  r_pricing :: pricing
  r_fundamentals :: pydict
  r_technical :: pydict
  r_performance :: pydict
  r_fundamental_breakdown :: breakdown
  r_technical_breakdown :: breakdown
  r_momentum_breakdown :: breakdown
  r_risk_breakdown :: breakdown
  r_analysis_date :: nat

text \<open>\<^verbatim>\<open>INSERT OR REPLACE\<close> on the key (symbol, analysis date); \<open>now\<close> is the reading of
  the clock inside \<^verbatim>\<open>save_analysis_result\<close>.\<close>

definition save_analysis_result :: "database \<Rightarrow> nat \<Rightarrow> analysis_result \<Rightarrow> database \<times> bool" where
  "save_analysis_result db now analysis =
     (let row = \<lparr>row_symbol = r_symbol analysis,
                 row_analysis_date = now,
                 row_total_score = r_total_score analysis,
                 row_fundamental_score = r_fundamental_score analysis,
                 row_technical_score = r_technical_score analysis,
                 row_momentum_score = r_momentum_score analysis,
                 row_risk_score = r_risk_score analysis,
                 row_recommendation = recommendation_text (r_recommendation analysis),
                 row_current_price = current_price (r_pricing analysis),
                 row_target_price = target_price (r_pricing analysis),
                 row_conservative_buy_price = conservative_buy_price (r_pricing analysis),
                 row_aggressive_buy_price = aggressive_buy_price (r_pricing analysis),
                 row_upside_potential = upside_potential (r_pricing analysis),
                 row_risk_percentage = real_of_int (r_risk_percentage analysis)\<rparr>;
          kept = filter (\<lambda>r. (row_symbol r, row_analysis_date r) \<noteq> (r_symbol analysis, now))
                        (analysis_results db)
      in (db\<lparr>analysis_results := kept @ [row]\<rparr>, True))"

text \<open>
  The part of \<^verbatim>\<open>analyze_stock\<close> from the four scorers to the assembled dictionary,
  as a function of the three inputs of the scoring: any exception it raises is the
  left summand.
\<close>

definition compile_analysis ::
  "string \<Rightarrow> company option \<Rightarrow> nat \<Rightarrow> pydict option \<Rightarrow> pydict \<Rightarrow> pydict
     \<Rightarrow> error + analysis_result" where
  "compile_analysis symbol company_info today fundamentals technical performance =
     (let fundamental = score_fundamental_health fundamentals in
      and_then (score_technical_strength (Some technical)) (\<lambda>tech.
      and_then (score_momentum_quality (Some performance)) (\<lambda>momentum.
      and_then (calculate_risk_score (Some technical) (Some performance) fundamentals) (\<lambda>risk.
        let total_score = fst fundamental + fst tech + fst momentum in
        and_then (calculate_target_pricing symbol fundamentals (Some technical) (Some performance))
          (\<lambda>pricing.
            let recommendation =
                  get_investment_recommendation total_score (fst risk) (upside_potential pricing)
            in Inr \<lparr>r_symbol = symbol,
                     r_company_name =
                       (case company_info of None \<Rightarrow> Some symbol | Some c \<Rightarrow> company_name c),
                     r_sector =
                       (case company_info of None \<Rightarrow> Some ''Unknown'' | Some c \<Rightarrow> company_sector c),
                     r_total_score = total_score,
                     r_fundamental_score = fst fundamental,
                     r_technical_score = fst tech,
                     r_momentum_score = fst momentum,
                     r_risk_score = fst risk,
                     r_risk_percentage = fst risk,
                     r_recommendation = recommendation,
                     r_pricing = pricing,
                     r_fundamentals = (case fundamentals of None \<Rightarrow> Map.empty | Some f \<Rightarrow> f),
                     r_technical = technical,
                     r_performance = performance,
                     r_fundamental_breakdown = snd fundamental,
                     r_technical_breakdown = snd tech,
                     r_momentum_breakdown = snd momentum,
                     r_risk_breakdown = snd risk,
                     r_analysis_date = today\<rparr>)))))"

text \<open>
  \<^verbatim>\<open>analyze_stock\<close> on a store: the result, \<^verbatim>\<open>None\<close> for no price data or for any
  exception, and the store afterwards. \<open>today\<close> and \<open>now\<close> are the two readings of the
  clock, in the analysis and in the save.
\<close>

definition analyze_stock ::
  "database \<Rightarrow> nat \<Rightarrow> nat \<Rightarrow> string \<Rightarrow> analysis_result option \<times> database" where
  "analyze_stock db today now symbol =
     (let price_data = get_price_data db symbol 252;
          fundamentals = get_latest_fundamentals db symbol;
          company_info = get_company db symbol
      in case price_data of
           None \<Rightarrow> (None, db)
         | Some df \<Rightarrow>
             if df = [] then (None, db)
             else
               let technical = calculate_technical_indicators price_data;
                   performance = calculate_performance_metrics price_data
               in case compile_analysis symbol company_info today fundamentals technical performance of
                    Inl e \<Rightarrow> (None, db)
                  | Inr analysis_result \<Rightarrow>
                      (Some analysis_result, fst (save_analysis_result db now analysis_result)))"

section \<open>Example inputs\<close>

text \<open>A frame of \<open>n\<close> equal bars on consecutive dates, and a store that holds it for
  one symbol and nothing else.\<close>

definition example_bar :: "nat \<Rightarrow> bar" where
  "example_bar d =
     \<lparr>date = d, open_price = 40, high = 42, low = 39, close = 41, adj_close = 41,
      volume = 1000\<rparr>"

definition example_frame :: "nat \<Rightarrow> frame" where
  "example_frame n = map example_bar [0..<n]"

definition example_db :: "nat \<Rightarrow> database" where
  "example_db n =
     \<lparr>daily_prices = (\<lambda>s. if s = ''RY.TO'' then example_frame n else []),
      fundamentals_table = (\<lambda>s. []),
      companies = (\<lambda>s. None),
      analysis_results = []\<rparr>"

text \<open>Ten bars with a fixed high and falling closes, each bar closing at its low: the
  last close is the lowest low of the frame.\<close>

definition falling_frame :: frame where
  "falling_frame =
     map (\<lambda>i. \<lparr>date = i, open_price = 30 - real i, high = 30, low = 20 - real i,
                close = 20 - real i, adj_close = 20 - real i, volume = 1000\<rparr>) [0..<10]"

section \<open>Properties\<close>

text \<open>
  C3. With the risk score and the upside potential held fixed, a higher total score
  never yields a lower-ranked recommendation, in the order
  SELL < CONSIDER SELLING < WEAK HOLD < HOLD < MODERATE BUY < BUY < STRONG BUY.
\<close>

theorem recommendation_monotone:
  "t1 \<le> t2 \<Longrightarrow>
   rank (get_investment_recommendation t1 risk upside)
     \<le> rank (get_investment_recommendation t2 risk upside)"
  unfolding get_investment_recommendation_def by simp

theorem recommendation_monotone_witness:
  "(65::int) \<le> 85
   \<and> get_investment_recommendation 65 30 (Some 0.2) = MODERATE_BUY
   \<and> get_investment_recommendation 85 30 (Some 0.2) = STRONG_BUY
   \<and> rank (get_investment_recommendation 65 30 (Some 0.2))
       \<le> rank (get_investment_recommendation 85 30 (Some 0.2))"
  using recommendation_monotone [of 65 85 30 "Some 0.2"]
  by (simp add: get_investment_recommendation_def)

subsection \<open>Auxiliary facts\<close>

lemma and_then_eq_Inr: "(and_then m f = Inr y) = (\<exists>x. m = Inr x \<and> f x = Inr y)"
  by (cases m) (simp_all add: and_then_def)

lemma volatility_risk_range: "volatility_risk v = Inr x \<Longrightarrow> 5 \<le> x \<and> x \<le> 30"
  by (cases v) (auto split: if_splits)

lemma beta_risk_range: "beta_risk v = Inr x \<Longrightarrow> 5 \<le> x \<and> x \<le> 20"
  by (cases v) (auto split: if_splits)

lemma leverage_risk_range: "0 \<le> leverage_risk v \<and> leverage_risk v \<le> 25"
  by (cases v) auto

lemma rsi_risk_range: "rsi_risk v = Inr x \<Longrightarrow> 0 \<le> x \<and> x \<le> 8"
  by (cases v) (auto split: if_splits)

lemma bb_risk_range: "bb_risk v = Inr x \<Longrightarrow> 0 \<le> x \<and> x \<le> 7"
  by (cases v) (auto split: if_splits)

lemma drawdown_risk_range: "drawdown_risk v = Inr x \<Longrightarrow> 0 \<le> x \<and> x \<le> 10"
  by (cases v) (auto split: if_splits)

subsection \<open>Risk score\<close>

text \<open>
  C10. Whenever \<^verbatim>\<open>calculate_risk_score\<close> returns, for any technical, performance and
  fundamentals inputs, the five components are in the breakdown, the volatility and
  beta components are at least 5 each, the other three are non-negative, the score is
  their sum capped at 100, and so it lies between 10 and 100.
\<close>

theorem risk_score_range:
  assumes "calculate_risk_score technical performance fundamentals = Inr (risk, b)"
  shows "\<exists>vol beta lev tech dd.
           b ''volatility_risk'' = Some (Pts vol) \<and> b ''beta_risk'' = Some (Pts beta)
           \<and> b ''leverage_risk'' = Some (Pts lev) \<and> b ''technical_risk'' = Some (Pts tech)
           \<and> b ''drawdown_risk'' = Some (Pts dd)
           \<and> 5 \<le> vol \<and> 5 \<le> beta \<and> 0 \<le> lev \<and> 0 \<le> tech \<and> 0 \<le> dd
           \<and> risk = min 100 (vol + beta + lev + tech + dd)
           \<and> 10 \<le> risk \<and> risk \<le> 100"
  using assms leverage_risk_range [of "guarded_get fundamentals ''debt_to_equity''"]
  by (auto simp: calculate_risk_score_def and_then_eq_Inr Let_def
      simp del: guarded_get_default.simps guarded_get.simps
      split: option.splits
      dest!: volatility_risk_range beta_risk_range rsi_risk_range bb_risk_range drawdown_risk_range)

theorem risk_score_range_witness:
  "calculate_risk_score None (Some Map.empty) None
     = Inr (25, [''volatility_risk'' \<mapsto> Pts 10, ''beta_risk'' \<mapsto> Pts 5,
                 ''leverage_risk'' \<mapsto> Pts 10, ''technical_risk'' \<mapsto> Pts 0,
                 ''drawdown_risk'' \<mapsto> Pts 0])
   \<and> (10::int) \<le> 25 \<and> (25::int) \<le> 100"
proof -
  have h: "calculate_risk_score None (Some Map.empty) None
     = Inr (25, [''volatility_risk'' \<mapsto> Pts 10, ''beta_risk'' \<mapsto> Pts 5,
                 ''leverage_risk'' \<mapsto> Pts 10, ''technical_risk'' \<mapsto> Pts 0,
                 ''drawdown_risk'' \<mapsto> Pts 0])"
    by (simp add: calculate_risk_score_def and_then_def get_default_def)
  from risk_score_range [OF h] show ?thesis using h by simp
qed

subsection \<open>Target price\<close>

text \<open>
  C2, as the code has it. Whenever target pricing returns and the current price is
  not negative, the target price lies between 1.05 times and 2.0 times the current
  price, whatever the fundamentals, the other technical entries and the performance
  metrics are, the fallback without candidates included.
\<close>

theorem target_price_range:
  assumes "calculate_target_pricing symbol fundamentals technical performance = Inr pr"
    and "0 \<le> current_price pr"
  shows "current_price pr * 1.05 \<le> target_price pr \<and> target_price pr \<le> current_price pr * 2.0"
  using assms
  by (auto simp: calculate_target_pricing_def and_then_eq_Inr Let_def
      simp del: guarded_get_default.simps guarded_get.simps pe_method.simps
        resistance_method.simps high_method.simps
      split: if_splits)

theorem target_price_range_witness:
  "calculate_target_pricing ''RY.TO'' None (Some [''current_price'' \<mapsto> Num 10]) None
     = Inr \<lparr>current_price = 10, conservative_buy_price = 17/2, aggressive_buy_price = 9,
            target_price = 23/2, upside_potential = Some (3/20),
            support_level = PNone, resistance_level = PNone\<rparr>
   \<and> (0::real) \<le> 10 \<and> (10::real) * 1.05 \<le> 23/2 \<and> (23/2::real) \<le> 10 * 2.0"
proof -
  have h: "calculate_target_pricing ''RY.TO'' None (Some [''current_price'' \<mapsto> Num 10]) None
     = Inr \<lparr>current_price = 10, conservative_buy_price = 17/2, aggressive_buy_price = 9,
            target_price = 23/2, upside_potential = Some (3/20),
            support_level = PNone, resistance_level = PNone\<rparr>"
    by (simp add: calculate_target_pricing_def and_then_def get_default_def get_def)
  from target_price_range [OF h] show ?thesis using h by simp
qed

text \<open>
  C2 as stated fails for a negative current price: at the price -10 with no other
  entry the fallback target -11.5 is clamped to -10.5, which is above 2.0 times the
  price, -20.
\<close>

theorem target_price_negative_price:
  "calculate_target_pricing ''RY.TO'' None (Some [''current_price'' \<mapsto> Num (- 10)]) None
     = Inr \<lparr>current_price = - 10, conservative_buy_price = - 9, aggressive_buy_price = - 9,
            target_price = - (21/2), upside_potential = Some (1/20),
            support_level = PNone, resistance_level = PNone\<rparr>
   \<and> \<not> (- (21/2) \<le> (- 10::real) * 2.0)"
  by (simp add: calculate_target_pricing_def and_then_def get_default_def get_def)

subsection \<open>Indicator defaults for short series\<close>

text \<open>
  C7. For no frame, an empty frame or a frame of fewer than 10 bars, the indicator
  engine returns the default set: the current price (the last close, 100 without any
  bar) for the moving averages of 20 and 50 bars, no 200-bar average, RSI 50, band
  position 0.5, bands at 1.1 and 0.9 times the price, MACD values 0, volume ratio 1,
  ATR 0.02 times the price, 52-week high and low at the price, 52-week position 0.5,
  trend strength 0, support at 0.95 and resistance at 1.05 times the price,
  volatility 0.3. The function is total: no input makes it raise.
\<close>

theorem short_series_defaults:
  assumes "df = None \<or> (\<exists>bars. df = Some bars \<and> length bars < 10)"
    and "price = (case df of
                    None \<Rightarrow> 100
                  | Some bars \<Rightarrow> if bars \<noteq> [] then close (last bars) else 100)"
  shows "calculate_technical_indicators df =
          [''current_price'' \<mapsto> Num price,
           ''sma_20'' \<mapsto> Num price,
           ''sma_50'' \<mapsto> Num price,
           ''sma_200'' \<mapsto> PNone,
           ''rsi'' \<mapsto> Num 50,
           ''bb_position'' \<mapsto> Num 0.5,
           ''bb_upper'' \<mapsto> Num (price * 1.1),
           ''bb_lower'' \<mapsto> Num (price * 0.9),
           ''macd'' \<mapsto> Num 0,
           ''macd_signal'' \<mapsto> Num 0,
           ''macd_histogram'' \<mapsto> Num 0,
           ''volume_ratio'' \<mapsto> Num 1,
           ''atr'' \<mapsto> Num (price * 0.02),
           ''52_week_high'' \<mapsto> Num price,
           ''52_week_low'' \<mapsto> Num price,
           ''52_week_position'' \<mapsto> Num 0.5,
           ''trend_strength'' \<mapsto> Num 0,
           ''support_level'' \<mapsto> Num (price * 0.95),
           ''resistance_level'' \<mapsto> Num (price * 1.05),
           ''volatility'' \<mapsto> Num 0.3]"
  using assms
  by (auto simp: calculate_technical_indicators_def get_default_technical_indicators_def Let_def)

theorem short_series_defaults_witness:
  "length (example_frame 3) < 10
   \<and> calculate_technical_indicators (Some (example_frame 3)) =
          [''current_price'' \<mapsto> Num 41,
           ''sma_20'' \<mapsto> Num 41,
           ''sma_50'' \<mapsto> Num 41,
           ''sma_200'' \<mapsto> PNone,
           ''rsi'' \<mapsto> Num 50,
           ''bb_position'' \<mapsto> Num 0.5,
           ''bb_upper'' \<mapsto> Num (41 * 1.1),
           ''bb_lower'' \<mapsto> Num (41 * 0.9),
           ''macd'' \<mapsto> Num 0,
           ''macd_signal'' \<mapsto> Num 0,
           ''macd_histogram'' \<mapsto> Num 0,
           ''volume_ratio'' \<mapsto> Num 1,
           ''atr'' \<mapsto> Num (41 * 0.02),
           ''52_week_high'' \<mapsto> Num 41,
           ''52_week_low'' \<mapsto> Num 41,
           ''52_week_position'' \<mapsto> Num 0.5,
           ''trend_strength'' \<mapsto> Num 0,
           ''support_level'' \<mapsto> Num (41 * 0.95),
           ''resistance_level'' \<mapsto> Num (41 * 1.05),
           ''volatility'' \<mapsto> Num 0.3]"
proof -
  have a: "length (example_frame 3) < 10"
    by (simp add: example_frame_def)
  have h1: "Some (example_frame 3) = None
            \<or> (\<exists>bars. Some (example_frame 3) = Some bars \<and> length bars < 10)"
    using a by simp
  have h2: "(41::real) = (case Some (example_frame 3) of
                    None \<Rightarrow> 100
                  | Some bars \<Rightarrow> if bars \<noteq> [] then close (last bars) else 100)"
    by (simp add: example_frame_def example_bar_def upt_conv_Cons)
  show ?thesis by (rule conjI [OF a short_series_defaults [OF h1 h2]])
qed

subsection \<open>The 200-bar moving average\<close>

lemma those_map_Some: "those (map Some xs) = Some xs"
  by (induction xs) simp_all

lemma tail_map: "tail n (map f xs) = map f (tail n xs)"
  by (simp add: tail_def drop_map)

lemma rolling_mean_last_Some:
  "0 < w \<Longrightarrow> w \<le> length xs \<Longrightarrow> rolling_mean_last w (map Some xs) = Some (mean (tail w xs))"
  by (simp add: rolling_mean_last_def tail_map those_map_Some)

lemma rolling_mean_last_comp:
  "0 < w \<Longrightarrow> w \<le> length xs \<Longrightarrow>
   rolling_mean_last w (map (Some \<circ> f) xs) = Some (mean (tail w (map f xs)))"
  using rolling_mean_last_Some [of w "map f xs"] by simp

lemma sma_200_entry:
  "calculate_technical_indicators df ''sma_200'' =
     Some (case df of
             None \<Rightarrow> PNone
           | Some bars \<Rightarrow>
               if 200 \<le> length bars
               then Num (mean (tail 200 (map close (sort_key date bars))))
               else PNone)"
  by (simp add: calculate_technical_indicators_def get_default_technical_indicators_def
      Let_def rolling_mean_last_comp split: option.split)

text \<open>
  C8. The \<^verbatim>\<open>sma_200\<close> entry of the indicator set is a number exactly when the frame
  has at least 200 bars, and then it is the mean of the last 200 closes in date order;
  with fewer bars, or without a frame, it is \<^verbatim>\<open>None\<close>.
\<close>

theorem sma_200_present_iff:
  "(get (calculate_technical_indicators df) ''sma_200'' \<noteq> PNone)
     = (\<exists>bars. df = Some bars \<and> 200 \<le> length bars)
   \<and> get (calculate_technical_indicators df) ''sma_200'' =
       (case df of
          None \<Rightarrow> PNone
        | Some bars \<Rightarrow>
            if 200 \<le> length bars
            then Num (mean (tail 200 (map close (sort_key date bars))))
            else PNone)"
  by (simp add: get_def sma_200_entry split: option.split)

subsection \<open>Default risk statistics\<close>

lemma length_pct_change: "length (pct_change xs) = length xs - 1"
  by (simp add: pct_change_def)

lemma map_add_lookup: "(m ++ n) k = (case n k of None \<Rightarrow> m k | Some v \<Rightarrow> Some v)"
  by (simp add: map_add_def)

text \<open>
  C5, as the code has it. A series of 10 or 11 bars has 9 or 10 daily returns, not
  more than 10, and gets the fixed risk statistics: volatility 0.3, VaR -0.05, Sharpe
  ratio 0, maximum drawdown 0, downside deviation 0.2, Sortino ratio 0. A series of
  fewer than 10 bars, like no series, gets the empty dictionary.
\<close>

theorem default_risk_statistics:
  "(10 \<le> length df \<and> length df \<le> 11 \<longrightarrow>
      calculate_performance_metrics (Some df) ''volatility'' = Some (Num 0.3)
    \<and> calculate_performance_metrics (Some df) ''var_95'' = Some (Num (- 0.05))
    \<and> calculate_performance_metrics (Some df) ''sharpe_ratio'' = Some (Num 0)
    \<and> calculate_performance_metrics (Some df) ''max_drawdown'' = Some (Num 0)
    \<and> calculate_performance_metrics (Some df) ''downside_deviation'' = Some (Num 0.2)
    \<and> calculate_performance_metrics (Some df) ''sortino_ratio'' = Some (Num 0))
   \<and> (length short < 10 \<longrightarrow> calculate_performance_metrics (Some short) = Map.empty)
   \<and> calculate_performance_metrics None = Map.empty"
  by (auto simp: calculate_performance_metrics_def Let_def length_pct_change
      default_risk_stats_def map_add_lookup)

theorem default_risk_statistics_witness:
  "10 \<le> length (example_frame 10) \<and> length (example_frame 10) \<le> 11
   \<and> length (example_frame 5) < 10
   \<and> calculate_performance_metrics (Some (example_frame 10)) ''volatility'' = Some (Num 0.3)
   \<and> calculate_performance_metrics (Some (example_frame 10)) ''var_95'' = Some (Num (- 0.05))
   \<and> calculate_performance_metrics (Some (example_frame 10)) ''sharpe_ratio'' = Some (Num 0)
   \<and> calculate_performance_metrics (Some (example_frame 10)) ''max_drawdown'' = Some (Num 0)
   \<and> calculate_performance_metrics (Some (example_frame 10)) ''downside_deviation''
       = Some (Num 0.2)
   \<and> calculate_performance_metrics (Some (example_frame 10)) ''sortino_ratio'' = Some (Num 0)
   \<and> calculate_performance_metrics (Some (example_frame 5)) = Map.empty"
proof -
  have a: "10 \<le> length (example_frame 10) \<and> length (example_frame 10) \<le> 11"
    and b: "length (example_frame 5) < 10"
    by (simp_all add: example_frame_def)
  from default_risk_statistics [of "example_frame 10" "example_frame 5"] a b
  show ?thesis by blast
qed

text \<open>
  C5 as stated fails below 10 bars: a series of 5 bars has 4 daily returns, fewer
  than 10, and the result is the empty dictionary, without any volatility entry.
\<close>

theorem short_series_no_risk_statistics:
  "length (pct_change (map close (example_frame 5))) = 4
   \<and> calculate_performance_metrics (Some (example_frame 5)) = Map.empty
   \<and> calculate_performance_metrics (Some (example_frame 5)) ''volatility'' \<noteq> Some (Num 0.3)"
  by (simp add: calculate_performance_metrics_def length_pct_change example_frame_def)

subsection \<open>Ranges of the three sub-scores\<close>

lemma pe_factor_range: "0 \<le> fst (pe_factor v)" by (cases v) auto
lemma pb_factor_range: "0 \<le> fst (pb_factor v)" by (cases v) auto
lemma peg_factor_range: "0 \<le> fst (peg_factor v)" by (cases v) auto
lemma roe_factor_range: "0 \<le> fst (roe_factor v)" by (cases v) auto
lemma margin_factor_range: "0 \<le> fst (margin_factor v)" by (cases v) auto
lemma growth_factor_range: "0 \<le> fst (growth_factor v)" by (cases v) auto
lemma debt_factor_range: "0 \<le> fst (debt_factor v)" by (cases v) auto
lemma dividend_factor_range: "0 \<le> fst (dividend_factor v)" by (cases v) auto
lemma payout_factor_range: "0 \<le> fst (payout_factor v)" by (cases v) auto

lemma fundamental_score_range:
  "0 \<le> fst (score_fundamental_health fundamentals) \<and> fst (score_fundamental_health fundamentals) \<le> 40"
proof (cases "dict_truthy fundamentals")
  case False
  then show ?thesis
    by (cases fundamentals) (simp_all add: score_fundamental_health_def)
next
  case True
  then obtain f where f: "fundamentals = Some f" "f \<noteq> Map.empty"
    by (cases fundamentals) simp_all
  show ?thesis
    using pe_factor_range [of "get f ''pe_ratio''"] pb_factor_range [of "get f ''price_to_book''"]
      peg_factor_range [of "get f ''peg_ratio''"] roe_factor_range [of "get f ''roe''"]
      margin_factor_range [of "get f ''profit_margin''"]
      growth_factor_range [of "get f ''revenue_growth''"]
      debt_factor_range [of "get f ''debt_to_equity''"]
      dividend_factor_range [of "get f ''dividend_yield''"]
      payout_factor_range [of "get f ''payout_ratio''"]
    by (simp add: f score_fundamental_health_def Let_def)
qed

lemma rsi_factor_range: "0 \<le> fst (rsi_factor v)" by (cases v) auto
lemma bb_factor_range: "0 \<le> fst (bb_factor v)" by (cases v) auto
lemma position_factor_range: "0 \<le> fst (position_factor v)" by (cases v) auto
lemma volume_factor_range: "volume_factor v = Inr x \<Longrightarrow> 0 \<le> fst x"
  by (cases v) (auto split: if_splits)

lemma technical_score_range:
  assumes "score_technical_strength technical = Inr (s, b)"
  shows "0 \<le> s \<and> s \<le> 30"
proof (cases "dict_truthy technical")
  case False
  with assms show ?thesis
    by (cases technical) (simp_all add: score_technical_strength_def)
next
  case True
  then obtain t where t: "technical = Some t" "t \<noteq> Map.empty"
    by (cases technical) simp_all
  from assms obtain up_20 up_50 up_200 macd_up vol where
    f: "volume_factor (get_default t ''volume_ratio'' 1) = Inr vol"
    and s: "s = min ((if up_20 then 3 else 0) + (if up_50 then 4 else 0)
                 + (if up_200 then 5 else 0)
                 + (if ma_alignment (get t ''sma_20'') (get t ''sma_50'') then 3 else 0)
                 + (fst (rsi_factor (get t ''rsi'')) + (if macd_up then 2 else 0) + fst vol
                    + fst (bb_factor (get t ''bb_position'')))
                 + fst (position_factor (get t ''52_week_position''))) 30"
    unfolding score_technical_strength_def t option.case if_not_P [OF t(2)] Let_def
      and_then_eq_Inr sum.inject prod.inject
    by blast
  have "0 \<le> (if up_20 then 3 else 0::int)" "0 \<le> (if up_50 then 4 else 0::int)"
    "0 \<le> (if up_200 then 5 else 0::int)" "0 \<le> (if macd_up then 2 else 0::int)"
    "0 \<le> (if ma_alignment (get t ''sma_20'') (get t ''sma_50'') then 3 else 0::int)"
    by simp_all
  then show ?thesis
    using volume_factor_range [OF f] rsi_factor_range [of "get t ''rsi''"]
      bb_factor_range [of "get t ''bb_position''"]
      position_factor_range [of "get t ''52_week_position''"]
    unfolding s by linarith
qed

lemma ret_1m_factor_range: "0 \<le> fst (ret_1m_factor v)" by (cases v) auto
lemma ret_1y_factor_range: "0 \<le> fst (ret_1y_factor v)" by (cases v) auto
lemma sharpe_factor_range: "sharpe_factor v = Inr x \<Longrightarrow> 0 \<le> fst x"
  by (cases v) (auto split: if_splits)
lemma sortino_factor_range: "sortino_factor v = Inr x \<Longrightarrow> 0 \<le> fst x"
  by (cases v) (auto split: if_splits)
lemma volatility_factor_range: "volatility_factor v = Inr x \<Longrightarrow> 0 \<le> fst x"
  by (cases v) (auto split: if_splits)
lemma drawdown_factor_range: "drawdown_factor v = Inr x \<Longrightarrow> 0 \<le> fst x"
  by (cases v) (auto split: if_splits)

lemma momentum_score_range:
  assumes "score_momentum_quality performance = Inr (s, b)"
  shows "0 \<le> s \<and> s \<le> 30"
proof (cases "dict_truthy performance")
  case False
  with assms show ?thesis
    by (cases performance) (simp_all add: score_momentum_quality_def)
next
  case True
  then obtain p where p: "performance = Some p" "p \<noteq> Map.empty"
    by (cases performance) simp_all
  from assms obtain sharpe sortino vol dd pp where
    f: "sharpe_factor (get_default p ''sharpe_ratio'' 0) = Inr sharpe"
       "sortino_factor (get_default p ''sortino_ratio'' 0) = Inr sortino"
       "volatility_factor (get_default p ''volatility'' 0) = Inr vol"
       "drawdown_factor (get_default p ''max_drawdown'' 0) = Inr dd"
    and s: "s = min (int pp * 2 + fst (ret_1m_factor (get_default p ''return_1M'' 0))
                 + fst (ret_1y_factor (get_default p ''return_1Y'' 0))
                 + (fst sharpe + fst sortino + fst vol) + fst dd) 30"
    unfolding score_momentum_quality_def p option.case if_not_P [OF p(2)] Let_def
      and_then_eq_Inr sum.inject prod.inject
    by blast
  show ?thesis
    using sharpe_factor_range [OF f(1)] sortino_factor_range [OF f(2)]
      volatility_factor_range [OF f(3)] drawdown_factor_range [OF f(4)]
      ret_1m_factor_range [of "get_default p ''return_1M'' 0"]
      ret_1y_factor_range [of "get_default p ''return_1Y'' 0"]
    unfolding s by simp
qed

lemma compile_analysis_scores:
  assumes "compile_analysis symbol company_info today fundamentals technical performance = Inr r"
  shows "r_total_score r = r_fundamental_score r + r_technical_score r + r_momentum_score r
       \<and> (r_fundamental_score r, r_fundamental_breakdown r) = score_fundamental_health fundamentals
       \<and> score_technical_strength (Some technical) = Inr (r_technical_score r, r_technical_breakdown r)
       \<and> score_momentum_quality (Some performance) = Inr (r_momentum_score r, r_momentum_breakdown r)"
  using assms
  by (auto simp: compile_analysis_def Let_def and_then_eq_Inr)

subsection \<open>The scorers return on numeric entries\<close>

lemma get_default_num: "d k \<noteq> Some PNone \<Longrightarrow> \<exists>v. get_default d k x = Num v"
  by (cases "d k"; cases "the (d k)") (auto simp: get_default_def)

lemma guarded_get_default_num:
  "d k \<noteq> Some PNone \<Longrightarrow> \<exists>v. guarded_get_default (Some d) k x = Num v"
  using get_default_num [of d k x] by simp

lemma above_Num: "\<exists>b. above (Num c) s = Inr b"
  by (cases s) (auto simp: py_gt_def and_then_def)

lemma py_gt_Num: "py_gt (Num a) (Num b) = Inr (a > b)"
  by (simp add: py_gt_def and_then_def)

lemma technical_scorer_total:
  assumes "t ''current_price'' \<noteq> Some PNone" "t ''macd'' \<noteq> Some PNone"
    "t ''macd_signal'' \<noteq> Some PNone" "t ''volume_ratio'' \<noteq> Some PNone"
  shows "\<exists>x. score_technical_strength (Some t) = Inr x"
proof (cases "t = Map.empty")
  case True
  then show ?thesis by (simp add: score_technical_strength_def)
next
  case False
  from assms obtain cp m ms vr where
    n: "get_default t ''current_price'' 0 = Num cp" "get_default t ''macd'' 0 = Num m"
       "get_default t ''macd_signal'' 0 = Num ms" "get_default t ''volume_ratio'' 1 = Num vr"
    using get_default_num by metis
  obtain u20 u50 u200 where
    u: "above (Num cp) (get t ''sma_20'') = Inr u20" "above (Num cp) (get t ''sma_50'') = Inr u50"
       "above (Num cp) (get t ''sma_200'') = Inr u200"
    using above_Num by metis
  show ?thesis
    unfolding score_technical_strength_def option.case if_not_P [OF False] Let_def n u
      py_gt_Num volume_factor.simps and_then_def sum.case
    by blast
qed

lemma momentum_scorer_total:
  assumes "p ''sharpe_ratio'' \<noteq> Some PNone" "p ''sortino_ratio'' \<noteq> Some PNone"
    "p ''volatility'' \<noteq> Some PNone" "p ''max_drawdown'' \<noteq> Some PNone"
  shows "\<exists>x. score_momentum_quality (Some p) = Inr x"
proof (cases "p = Map.empty")
  case True
  then show ?thesis by (simp add: score_momentum_quality_def)
next
  case False
  from assms obtain a b c d where
    n: "get_default p ''sharpe_ratio'' 0 = Num a" "get_default p ''sortino_ratio'' 0 = Num b"
       "get_default p ''volatility'' 0 = Num c" "get_default p ''max_drawdown'' 0 = Num d"
    using get_default_num by metis
  show ?thesis
    unfolding score_momentum_quality_def option.case if_not_P [OF False] Let_def n
      sharpe_factor.simps sortino_factor.simps volatility_factor.simps drawdown_factor.simps
      and_then_def sum.case
    by blast
qed

lemma risk_score_total:
  assumes "p ''volatility'' \<noteq> Some PNone" "p ''max_drawdown'' \<noteq> Some PNone"
    "t ''rsi'' \<noteq> Some PNone" "t ''bb_position'' \<noteq> Some PNone"
    "guarded_get_default fundamentals ''beta'' 1.0 \<noteq> PNone"
  shows "\<exists>x. calculate_risk_score (Some t) (Some p) fundamentals = Inr x"
proof -
  from assms obtain a b c d where
    n: "get_default p ''volatility'' 0.3 = Num a"
       "guarded_get_default (Some p) ''max_drawdown'' 0 = Num b"
       "guarded_get_default (Some t) ''rsi'' 50 = Num c"
       "guarded_get_default (Some t) ''bb_position'' 0.5 = Num d"
    using get_default_num guarded_get_default_num by metis
  from assms(5) obtain e where e: "guarded_get_default fundamentals ''beta'' 1.0 = Num e"
    by (cases "guarded_get_default fundamentals ''beta'' 1.0") simp_all
  show ?thesis
    unfolding calculate_risk_score_def option.case Let_def n e
      volatility_risk.simps beta_risk.simps rsi_risk.simps bb_risk.simps drawdown_risk.simps
      and_then_def sum.case
    by blast
qed

lemma target_pricing_total:
  assumes "t ''current_price'' = Some (Num cp)"
    "t ''support_level'' \<noteq> Some PNone" "p ''momentum_score'' \<noteq> Some PNone"
  shows "\<exists>x. calculate_target_pricing symbol fundamentals (Some t) (Some p) = Inr x"
proof -
  from assms(1) have ne: "t \<noteq> Map.empty" by auto
  have cp: "guarded_get_default (Some t) ''current_price'' 100 = Num cp"
    using assms(1) ne by (simp add: get_default_def)
  obtain s where s: "guarded_get_default (Some t) ''support_level'' (cp * 0.9) = Num s"
    using guarded_get_default_num [of t "''support_level''", OF assms(2)] by metis
  obtain m where m: "guarded_get_default (Some p) ''momentum_score'' 50 = Num m"
    using guarded_get_default_num [of p "''momentum_score''", OF assms(3)] by metis
  have "\<exists>hs. high_method (Some t) (Some p) = Inr hs"
    by (cases "guarded_get (Some t) ''52_week_high''")
      (simp_all add: m and_then_def del: guarded_get.simps guarded_get_default.simps)
  then obtain hs where hs: "high_method (Some t) (Some p) = Inr hs" ..
  show ?thesis
    unfolding calculate_target_pricing_def cp s hs as_num.simps and_then_def sum.case Let_def
    by blast
qed

subsection \<open>The indicator and performance dictionaries hold numbers\<close>

lemma last_sort_key_in: "bars \<noteq> [] \<Longrightarrow> last (sort_key f bars) \<in> set bars"
proof -
  assume "bars \<noteq> []"
  then have "sort_key f bars \<noteq> []" by (metis length_0_conv length_sort)
  then have "last (sort_key f bars) \<in> set (sort_key f bars)" by (rule last_in_set)
  then show ?thesis by simp
qed

lemma technical_current_price:
  assumes "bars \<noteq> []"
  shows "\<exists>b \<in> set bars. calculate_technical_indicators (Some bars) ''current_price''
            = Some (Num (close b))"
  using assms last_sort_key_in [OF assms, of date]
  by (auto simp: calculate_technical_indicators_def get_default_technical_indicators_def Let_def)

lemma technical_numeric_entries:
  "calculate_technical_indicators df ''macd'' \<noteq> Some PNone"
  "calculate_technical_indicators df ''macd_signal'' \<noteq> Some PNone"
  "calculate_technical_indicators df ''volume_ratio'' \<noteq> Some PNone"
  "calculate_technical_indicators df ''rsi'' \<noteq> Some PNone"
  "calculate_technical_indicators df ''bb_position'' \<noteq> Some PNone"
  "calculate_technical_indicators df ''support_level'' \<noteq> Some PNone"
  by (simp_all add: calculate_technical_indicators_def get_default_technical_indicators_def
      Let_def split: option.split)


lemma sample_std_Some: "2 \<le> length xs \<Longrightarrow> \<exists>s. sample_std xs = Some s"
  by (simp add: sample_std_def)

lemma computed_risk_stats_numeric:
  assumes "2 \<le> length dr"
  shows "rs_volatility (computed_risk_stats dr) \<noteq> PNone"
    "rs_sharpe_ratio (computed_risk_stats dr) \<noteq> PNone"
    "rs_sortino_ratio (computed_risk_stats dr) \<noteq> PNone"
    "rs_max_drawdown (computed_risk_stats dr) \<noteq> PNone"
  using sample_std_Some [OF assms]
  by (auto simp: computed_risk_stats_def Let_def)

lemma performance_numeric_entries:
  "calculate_performance_metrics df ''volatility'' \<noteq> Some PNone"
  "calculate_performance_metrics df ''sharpe_ratio'' \<noteq> Some PNone"
  "calculate_performance_metrics df ''sortino_ratio'' \<noteq> Some PNone"
  "calculate_performance_metrics df ''max_drawdown'' \<noteq> Some PNone"
  "calculate_performance_metrics df ''momentum_score'' \<noteq> Some PNone"
  by (auto simp: calculate_performance_metrics_def Let_def map_add_lookup default_risk_stats_def
      computed_risk_stats_numeric split: option.split)

lemma compile_analysis_total:
  assumes "technical = calculate_technical_indicators (Some bars)"
    and "performance = calculate_performance_metrics (Some bars)"
    and "bars \<noteq> []"
    and "guarded_get_default fundamentals ''beta'' 1.0 \<noteq> PNone"
  shows "\<exists>r. compile_analysis symbol company_info today fundamentals technical performance = Inr r"
proof -
  from technical_current_price [OF assms(3)] obtain cp where
    cp: "technical ''current_price'' = Some (Num cp)"
    unfolding assms(1) by blast
  then have cp': "technical ''current_price'' \<noteq> Some PNone" by simp
  note t = technical_numeric_entries [of "Some bars", folded assms(1)]
  note p = performance_numeric_entries [of "Some bars", folded assms(2)]
  obtain x1 where x1: "score_technical_strength (Some technical) = Inr x1"
    using technical_scorer_total [OF cp' t(1) t(2) t(3)] ..
  obtain x2 where x2: "score_momentum_quality (Some performance) = Inr x2"
    using momentum_scorer_total [OF p(2) p(3) p(1) p(4)] ..
  obtain x3 where x3: "calculate_risk_score (Some technical) (Some performance) fundamentals = Inr x3"
    using risk_score_total [OF p(1) p(4) t(4) t(5) assms(4)] ..
  obtain x4 where
    x4: "calculate_target_pricing symbol fundamentals (Some technical) (Some performance) = Inr x4"
    using target_pricing_total [where t = technical and p = performance, OF cp t(6) p(5)] ..
  show ?thesis
    unfolding compile_analysis_def Let_def x1 x2 x3 x4 and_then_def sum.case by blast
qed

subsection \<open>Storage and the complete analysis\<close>

lemma get_price_data_Some:
  assumes "get_price_data db symbol days = Some df"
  shows "df \<noteq> [] \<and> set df \<subseteq> set (daily_prices db symbol)"
proof -
  let ?newest = "take days (rev (sort_key date (daily_prices db symbol)))"
  from assms have ne: "?newest \<noteq> []" and df: "df = sort_key date ?newest"
    by (auto simp: get_price_data_def Let_def split: if_splits)
  have "set ?newest \<subseteq> set (daily_prices db symbol)"
    using set_take_subset [of days "rev (sort_key date (daily_prices db symbol))"] by simp
  moreover have "df \<noteq> []" using ne df by (metis length_0_conv length_sort)
  ultimately show ?thesis by (simp add: df)
qed


lemma get_price_data_nonempty_table:
  "daily_prices db symbol \<noteq> [] \<Longrightarrow> 0 < days \<Longrightarrow> \<exists>df. get_price_data db symbol days = Some df"
proof -
  assume a: "daily_prices db symbol \<noteq> []" and d: "0 < days"
  have "rev (sort_key date (daily_prices db symbol)) \<noteq> []"
    using a by (metis length_0_conv length_sort rev_is_Nil_conv)
  then have "take days (rev (sort_key date (daily_prices db symbol))) \<noteq> []"
    using d by (cases "rev (sort_key date (daily_prices db symbol))"; cases days) simp_all
  then show ?thesis by (simp add: get_price_data_def Let_def)
qed

lemma analyze_stock_cases:
  "analyze_stock db today now symbol =
     (case get_price_data db symbol 252 of
        None \<Rightarrow> (None, db)
      | Some df \<Rightarrow>
          (case compile_analysis symbol (get_company db symbol) today
                  (get_latest_fundamentals db symbol)
                  (calculate_technical_indicators (Some df))
                  (calculate_performance_metrics (Some df)) of
             Inl e \<Rightarrow> (None, db)
           | Inr a \<Rightarrow> (Some a, fst (save_analysis_result db now a))))"
proof (cases "get_price_data db symbol 252")
  case None
  then show ?thesis by (simp add: analyze_stock_def)
next
  case (Some df)
  with get_price_data_Some [OF Some] show ?thesis
    by (simp add: analyze_stock_def Let_def)
qed

lemma compile_analysis_symbol:
  "compile_analysis symbol company_info today fundamentals technical performance = Inr a
   \<Longrightarrow> r_symbol a = symbol"
  by (auto simp: compile_analysis_def Let_def and_then_eq_Inr)

lemma analysis_score_facts:
  assumes "compile_analysis symbol company_info today fundamentals technical performance = Inr r"
  shows "r_total_score r = r_fundamental_score r + r_technical_score r + r_momentum_score r
    \<and> 0 \<le> r_fundamental_score r \<and> r_fundamental_score r \<le> 40
    \<and> 0 \<le> r_technical_score r \<and> r_technical_score r \<le> 30
    \<and> 0 \<le> r_momentum_score r \<and> r_momentum_score r \<le> 30
    \<and> 0 \<le> r_total_score r \<and> r_total_score r \<le> 100"
proof -
  note c = compile_analysis_scores [OF assms]
  from c have f: "r_fundamental_score r = fst (score_fundamental_health fundamentals)"
    by (metis fst_conv)
  from c have t: "score_technical_strength (Some technical)
                    = Inr (r_technical_score r, r_technical_breakdown r)" by simp
  from c have m: "score_momentum_quality (Some performance)
                    = Inr (r_momentum_score r, r_momentum_breakdown r)" by simp
  show ?thesis
    using c fundamental_score_range [of fundamentals] technical_score_range [OF t]
      momentum_score_range [OF m]
    by (simp add: f)
qed

lemma analyze_stock_Some:
  assumes "analyze_stock db today now symbol = (Some a, db')"
  shows "\<exists>df. get_price_data db symbol 252 = Some df
          \<and> compile_analysis symbol (get_company db symbol) today
               (get_latest_fundamentals db symbol)
               (calculate_technical_indicators (Some df))
               (calculate_performance_metrics (Some df)) = Inr a
          \<and> db' = fst (save_analysis_result db now a)"
  using assms unfolding analyze_stock_cases
  by (auto split: option.splits sum.splits)


lemma analysis_succeeds:
  assumes "daily_prices db symbol \<noteq> []"
    and "guarded_get_default (get_latest_fundamentals db symbol) ''beta'' 1.0 \<noteq> PNone"
  shows "\<exists>a. analyze_stock db today now symbol = (Some a, fst (save_analysis_result db now a))"
proof -
  from get_price_data_nonempty_table [OF assms(1), of 252]
  obtain df where df: "get_price_data db symbol 252 = Some df" by auto
  from get_price_data_Some [OF df]
  have ne: "df \<noteq> []" by auto
  from compile_analysis_total [OF refl refl ne assms(2)]
  obtain a where "compile_analysis symbol (get_company db symbol) today
               (get_latest_fundamentals db symbol)
               (calculate_technical_indicators (Some df))
               (calculate_performance_metrics (Some df)) = Inr a" by blast
  then show ?thesis
    unfolding analyze_stock_cases by (simp add: df)
qed

lemma save_analysis_result_rows:
  assumes "db' = fst (save_analysis_result db now a)" and "r_symbol a = symbol"
  shows "\<exists>row. filter (\<lambda>x. row_symbol x = symbol \<and> row_analysis_date x = now)
                  (analysis_results db') = [row]
          \<and> row_total_score row = r_total_score a
          \<and> row_fundamental_score row = r_fundamental_score a
          \<and> row_technical_score row = r_technical_score a
          \<and> row_momentum_score row = r_momentum_score a
          \<and> row_risk_score row = r_risk_score a
          \<and> row_recommendation row = recommendation_text (r_recommendation a)
          \<and> row_target_price row = target_price (r_pricing a)
          \<and> row_upside_potential row = upside_potential (r_pricing a)"
    and "filter (\<lambda>x. \<not> (row_symbol x = symbol \<and> row_analysis_date x = now))
           (analysis_results db')
         = filter (\<lambda>x. \<not> (row_symbol x = symbol \<and> row_analysis_date x = now))
           (analysis_results db)"
    and "daily_prices db' = daily_prices db" and "fundamentals_table db' = fundamentals_table db"
    and "companies db' = companies db"
proof -
  have 1: "filter (\<lambda>x. row_symbol x = symbol \<and> row_analysis_date x = now)
            (filter (\<lambda>r. (row_symbol r, row_analysis_date r) \<noteq> (symbol, now)) xs) = []" for xs
    by (induction xs) auto
  have 2: "filter (\<lambda>x. \<not> (row_symbol x = symbol \<and> row_analysis_date x = now))
            (filter (\<lambda>r. (row_symbol r, row_analysis_date r) \<noteq> (symbol, now)) xs)
           = filter (\<lambda>x. \<not> (row_symbol x = symbol \<and> row_analysis_date x = now)) xs" for xs
    by (induction xs) auto
  show "\<exists>row. filter (\<lambda>x. row_symbol x = symbol \<and> row_analysis_date x = now)
                  (analysis_results db') = [row]
          \<and> row_total_score row = r_total_score a
          \<and> row_fundamental_score row = r_fundamental_score a
          \<and> row_technical_score row = r_technical_score a
          \<and> row_momentum_score row = r_momentum_score a
          \<and> row_risk_score row = r_risk_score a
          \<and> row_recommendation row = recommendation_text (r_recommendation a)
          \<and> row_target_price row = target_price (r_pricing a)
          \<and> row_upside_potential row = upside_potential (r_pricing a)"
    by (simp add: assms save_analysis_result_def Let_def 1)
  show "filter (\<lambda>x. \<not> (row_symbol x = symbol \<and> row_analysis_date x = now))
           (analysis_results db')
         = filter (\<lambda>x. \<not> (row_symbol x = symbol \<and> row_analysis_date x = now))
           (analysis_results db)"
    by (simp add: assms save_analysis_result_def Let_def 2)
  show "daily_prices db' = daily_prices db" "fundamentals_table db' = fundamentals_table db"
    "companies db' = companies db"
    by (simp_all add: assms save_analysis_result_def Let_def)
qed

subsection \<open>Total score\<close>

lemma example_db_facts:
  "0 < n \<Longrightarrow> daily_prices (example_db n) ''RY.TO'' \<noteq> []"
  "get_latest_fundamentals (example_db n) ''RY.TO'' = None"
  "daily_prices (example_db 0) ''RY.TO'' = []"
  by (auto simp: example_db_def example_frame_def example_bar_def get_latest_fundamentals_def)

lemma example_compile:
  "\<exists>r. compile_analysis ''RY.TO'' None 0
          (Some [''pe_ratio'' \<mapsto> Num 15, ''roe'' \<mapsto> Num 0.2])
          [''current_price'' \<mapsto> Num 50, ''sma_20'' \<mapsto> Num 45, ''rsi'' \<mapsto> Num 50]
          [''sharpe_ratio'' \<mapsto> Num 1.2] = Inr r
        \<and> r_fundamental_score r = 16 \<and> r_technical_score r = 6 \<and> r_momentum_score r = 11
        \<and> r_risk_score r = 25 \<and> r_recommendation r = CONSIDER_SELLING"
  by (simp add: compile_analysis_def score_fundamental_health_def score_technical_strength_def
      score_momentum_quality_def calculate_risk_score_def calculate_target_pricing_def
      get_investment_recommendation_def
      and_then_def get_def get_default_def py_gt_def Let_def)

text \<open>
  C1. For every combination of fundamentals, technical indicators and performance
  metrics on which the scoring of \<^verbatim>\<open>analyze_stock\<close> completes, and for every complete
  analysis of a stored symbol, the total score is exactly the sum of the fundamental,
  technical and momentum scores; these are the values returned by the three scorers,
  each already capped at its maximum of 40, 30 and 30 and not negative, so the total
  lies between 0 and 100.
\<close>

theorem total_score_clamped_sum:
  "(compile_analysis symbol company_info today fundamentals technical performance = Inr r \<longrightarrow>
      r_total_score r = r_fundamental_score r + r_technical_score r + r_momentum_score r
    \<and> (r_fundamental_score r, r_fundamental_breakdown r) = score_fundamental_health fundamentals
    \<and> score_technical_strength (Some technical)
        = Inr (r_technical_score r, r_technical_breakdown r)
    \<and> score_momentum_quality (Some performance)
        = Inr (r_momentum_score r, r_momentum_breakdown r)
    \<and> 0 \<le> r_fundamental_score r \<and> r_fundamental_score r \<le> 40
    \<and> 0 \<le> r_technical_score r \<and> r_technical_score r \<le> 30
    \<and> 0 \<le> r_momentum_score r \<and> r_momentum_score r \<le> 30
    \<and> 0 \<le> r_total_score r \<and> r_total_score r \<le> 100)
   \<and> (analyze_stock db t1 t2 ticker = (Some a, db') \<longrightarrow>
      r_total_score a = r_fundamental_score a + r_technical_score a + r_momentum_score a
    \<and> 0 \<le> r_fundamental_score a \<and> r_fundamental_score a \<le> 40
    \<and> 0 \<le> r_technical_score a \<and> r_technical_score a \<le> 30
    \<and> 0 \<le> r_momentum_score a \<and> r_momentum_score a \<le> 30
    \<and> 0 \<le> r_total_score a \<and> r_total_score a \<le> 100)"
proof (intro conjI impI)
  assume c: "compile_analysis symbol company_info today fundamentals technical performance = Inr r"
  note s = compile_analysis_scores [OF c] and f = analysis_score_facts [OF c]
  show "r_total_score r = r_fundamental_score r + r_technical_score r + r_momentum_score r"
    "(r_fundamental_score r, r_fundamental_breakdown r) = score_fundamental_health fundamentals"
    "score_technical_strength (Some technical) = Inr (r_technical_score r, r_technical_breakdown r)"
    "score_momentum_quality (Some performance) = Inr (r_momentum_score r, r_momentum_breakdown r)"
    using s by simp_all
  show "0 \<le> r_fundamental_score r" "r_fundamental_score r \<le> 40"
    "0 \<le> r_technical_score r" "r_technical_score r \<le> 30"
    "0 \<le> r_momentum_score r" "r_momentum_score r \<le> 30"
    "0 \<le> r_total_score r" "r_total_score r \<le> 100"
    using f by simp_all
next
  assume "analyze_stock db t1 t2 ticker = (Some a, db')"
  from analyze_stock_Some [OF this] obtain df where
    c: "compile_analysis ticker (get_company db ticker) t1 (get_latest_fundamentals db ticker)
          (calculate_technical_indicators (Some df)) (calculate_performance_metrics (Some df))
        = Inr a" by blast
  note f = analysis_score_facts [OF c]
  show "r_total_score a = r_fundamental_score a + r_technical_score a + r_momentum_score a"
    "0 \<le> r_fundamental_score a" "r_fundamental_score a \<le> 40"
    "0 \<le> r_technical_score a" "r_technical_score a \<le> 30"
    "0 \<le> r_momentum_score a" "r_momentum_score a \<le> 30"
    "0 \<le> r_total_score a" "r_total_score a \<le> 100"
    using f by simp_all
qed

theorem total_score_clamped_sum_witness:
  "(\<exists>r. compile_analysis ''RY.TO'' None 0
          (Some [''pe_ratio'' \<mapsto> Num 15, ''roe'' \<mapsto> Num 0.2])
          [''current_price'' \<mapsto> Num 50, ''sma_20'' \<mapsto> Num 45, ''rsi'' \<mapsto> Num 50]
          [''sharpe_ratio'' \<mapsto> Num 1.2] = Inr r
        \<and> r_fundamental_score r = 16 \<and> r_technical_score r = 6 \<and> r_momentum_score r = 11
        \<and> r_total_score r = 33)
   \<and> (\<exists>a db'. analyze_stock (example_db 3) 0 0 ''RY.TO'' = (Some a, db')
        \<and> r_total_score a = r_fundamental_score a + r_technical_score a + r_momentum_score a
        \<and> 0 \<le> r_total_score a \<and> r_total_score a \<le> 100)"
proof -
  from example_compile obtain r where
    r: "compile_analysis ''RY.TO'' None 0
          (Some [''pe_ratio'' \<mapsto> Num 15, ''roe'' \<mapsto> Num 0.2])
          [''current_price'' \<mapsto> Num 50, ''sma_20'' \<mapsto> Num 45, ''rsi'' \<mapsto> Num 50]
          [''sharpe_ratio'' \<mapsto> Num 1.2] = Inr r"
    and v: "r_fundamental_score r = 16" "r_technical_score r = 6" "r_momentum_score r = 11"
    by blast
  from analysis_succeeds [of "example_db 3" "''RY.TO''" 0 0]
  obtain a where
    a: "analyze_stock (example_db 3) 0 0 ''RY.TO''
          = (Some a, fst (save_analysis_result (example_db 3) 0 a))"
    by (auto simp: example_db_facts)
  note t = total_score_clamped_sum [where r = r and a = a and db = "example_db 3"
      and ?t1.0 = 0 and ?t2.0 = 0 and ticker = "''RY.TO''"
      and db' = "fst (save_analysis_result (example_db 3) 0 a)"
      and symbol = "''RY.TO''" and company_info = None and today = 0
      and fundamentals = "Some [''pe_ratio'' \<mapsto> Num 15, ''roe'' \<mapsto> Num 0.2]"
      and technical = "[''current_price'' \<mapsto> Num 50, ''sma_20'' \<mapsto> Num 45, ''rsi'' \<mapsto> Num 50]"
      and performance = "[''sharpe_ratio'' \<mapsto> Num 1.2]"]
  from t r have "r_total_score r = r_fundamental_score r + r_technical_score r + r_momentum_score r"
    by blast
  with v have "r_total_score r = 33" by simp
  moreover from t a have
    "r_total_score a = r_fundamental_score a + r_technical_score a + r_momentum_score a
     \<and> 0 \<le> r_total_score a \<and> r_total_score a \<le> 100"
    by blast
  ultimately show ?thesis using r v a by blast
qed

subsection \<open>Persistence\<close>



subsection \<open>Absent fundamentals\<close>

text \<open>
  C6, as the code has it. Without fundamentals (\<^verbatim>\<open>None\<close>, or an empty dictionary)
  the fundamental scorer returns the score 0 and an empty breakdown, with no label for
  any factor. For a symbol with stored prices and no stored fundamentals, the
  analysis still returns a result, with fundamental score 0,
  an empty fundamental breakdown and a total that is the sum of the other two
  scores, and persists it in one row.
\<close>

theorem absent_fundamentals_empty_breakdown:
  assumes "get_latest_fundamentals db symbol = None"
    and "daily_prices db symbol \<noteq> []"
  shows "score_fundamental_health None = (0, Map.empty)
   \<and> score_fundamental_health (Some Map.empty) = (0, Map.empty)
   \<and> (\<exists>a. analyze_stock db today now symbol = (Some a, fst (save_analysis_result db now a))
          \<and> r_fundamental_score a = 0 \<and> r_fundamental_breakdown a = Map.empty
          \<and> r_total_score a = r_technical_score a + r_momentum_score a
          \<and> (\<exists>row. filter (\<lambda>x. row_symbol x = symbol \<and> row_analysis_date x = now)
                      (analysis_results (fst (save_analysis_result db now a))) = [row]
                 \<and> row_fundamental_score row = 0
                 \<and> row_total_score row = r_total_score a))"
proof -
  have beta: "guarded_get_default (get_latest_fundamentals db symbol) ''beta'' 1.0 \<noteq> PNone"
    by (simp add: assms(1))
  from analysis_succeeds [OF assms(2) beta, of today now] obtain a where
    a: "analyze_stock db today now symbol = (Some a, fst (save_analysis_result db now a))"
    by blast
  from analyze_stock_Some [OF a] obtain df where
    c: "compile_analysis symbol (get_company db symbol) today None
          (calculate_technical_indicators (Some df))
          (calculate_performance_metrics (Some df)) = Inr a"
    unfolding assms(1) by blast
  note s = compile_analysis_scores [OF c]
  have z: "score_fundamental_health None = (0, Map.empty)"
    "score_fundamental_health (Some Map.empty) = (0, Map.empty)"
    by (simp_all add: score_fundamental_health_def)
  from s z have f: "r_fundamental_score a = 0" "r_fundamental_breakdown a = Map.empty"
    by simp_all
  from s f have t: "r_total_score a = r_technical_score a + r_momentum_score a" by simp
  from save_analysis_result_rows(1) [where db = db and now = now, OF refl compile_analysis_symbol [OF c]]
  obtain row where
    "filter (\<lambda>x. row_symbol x = symbol \<and> row_analysis_date x = now)
        (analysis_results (fst (save_analysis_result db now a))) = [row]"
    "row_fundamental_score row = r_fundamental_score a" "row_total_score row = r_total_score a"
    by blast
  with z a f t show ?thesis by auto
qed

theorem absent_fundamentals_empty_breakdown_witness:
  "get_latest_fundamentals (example_db 3) ''RY.TO'' = None
   \<and> daily_prices (example_db 3) ''RY.TO'' \<noteq> []
   \<and> (\<exists>a. analyze_stock (example_db 3) 0 7 ''RY.TO''
              = (Some a, fst (save_analysis_result (example_db 3) 7 a))
          \<and> r_fundamental_score a = 0 \<and> r_fundamental_breakdown a = Map.empty)"
proof -
  have h: "get_latest_fundamentals (example_db 3) ''RY.TO'' = None"
    "daily_prices (example_db 3) ''RY.TO'' \<noteq> []"
    by (simp_all add: example_db_facts)
  from absent_fundamentals_empty_breakdown [OF h, of 0 7] h show ?thesis by blast
qed

text \<open>
  C6 as stated fails on the breakdown: for absent fundamentals it is empty, so the
  debt factor, like every other factor, has no entry and does not show \<^verbatim>\<open>Unknown\<close>.
\<close>

theorem absent_fundamentals_no_unknown_label:
  "score_fundamental_health None = (0, Map.empty)
   \<and> snd (score_fundamental_health None) ''debt_status'' \<noteq> Some (Txt ''Unknown'')
   \<and> snd (score_fundamental_health None) ''pe_status'' = None"
  by (simp add: score_fundamental_health_def)

subsection \<open>Target pricing at a price of 0\<close>

text \<open>At a current price of 0 target pricing returns: every price of the result is 0
  and the upside potential is NaN.\<close>

lemma target_pricing_zero_price:
  "calculate_target_pricing ''RY.TO'' None (Some [''current_price'' \<mapsto> Num 0]) None
     = Inr \<lparr>current_price = 0, conservative_buy_price = 0, aggressive_buy_price = 0,
            target_price = 0, upside_potential = None,
            support_level = PNone, resistance_level = PNone\<rparr>"
  by (simp add: calculate_target_pricing_def and_then_def get_default_def get_def)

subsection \<open>Position component of the technical score\<close>

lemma week_52_position_entry:
  assumes "10 \<le> length bars"
  shows "calculate_technical_indicators (Some bars) ''52_week_position'' =
     Some (Num (let df = sort_key date bars;
                    week_52_high = Max (set (map high (tail (min 252 (length df)) df)));
                    week_52_low = Min (set (map low (tail (min 252 (length df)) df)));
                    current_price = close (last df)
                in if week_52_high \<noteq> week_52_low
                   then (current_price - week_52_low) / (week_52_high - week_52_low)
                   else 0.5))"
  using assms
  by (simp add: calculate_technical_indicators_def Let_def)

lemma falling_frame_position:
  "calculate_technical_indicators (Some falling_frame) ''52_week_position'' = Some (Num 0)"
proof -
  have l: "10 \<le> length falling_frame" by (simp add: falling_frame_def)
  have s: "sort_key date falling_frame = falling_frame"
    by (simp add: falling_frame_def upt_conv_Cons)
  show ?thesis
    unfolding week_52_position_entry [OF l] s
    by (simp add: falling_frame_def upt_conv_Cons tail_def Let_def)
qed

lemma position_zero_breakdown:
  assumes "t ''52_week_position'' = Some (Num 0)"
    and "score_technical_strength (Some t) = Inr (s, b)"
  shows "b ''position_score'' = Some (Pts 0) \<and> b ''52_week_status'' = Some (Txt ''Unknown'')"
proof -
  from assms(1) have ne: "t \<noteq> Map.empty" by auto
  have g: "get t ''52_week_position'' = Num 0" by (simp add: get_def assms(1))
  from assms(2) obtain up_20 up_50 up_200 macd_up vol where
    "b = [''sma_20_status'' \<mapsto> Txt (if up_20 then ''Above SMA20'' else ''Below SMA20''),
          ''sma_50_status'' \<mapsto> Txt (if up_50 then ''Above SMA50'' else ''Below SMA50''),
          ''sma_200_status'' \<mapsto> sma_200_label up_200 (get t ''sma_200''),
          ''ma_alignment'' \<mapsto>
             Txt (if ma_alignment (get t ''sma_20'') (get t ''sma_50'')
                  then ''Bullish Alignment'' else ''Bearish/Neutral''),
          ''trend_score'' \<mapsto> Pts ((if up_20 then 3 else 0) + (if up_50 then 4 else 0)
                                + (if up_200 then 5 else 0)
                                + (if ma_alignment (get t ''sma_20'') (get t ''sma_50'')
                                   then 3 else 0)),
          ''rsi_status'' \<mapsto> snd (rsi_factor (get t ''rsi'')),
          ''macd_status'' \<mapsto>
             Txt (if macd_up then ''Bullish Signal'' else ''Bearish Signal''),
          ''volume_status'' \<mapsto> snd vol,
          ''bb_status'' \<mapsto> snd (bb_factor (get t ''bb_position'')),
          ''momentum_score'' \<mapsto> Pts (fst (rsi_factor (get t ''rsi''))
                + (if macd_up then 2 else 0) + fst vol + fst (bb_factor (get t ''bb_position''))),
          ''52_week_status'' \<mapsto> snd (position_factor (Num 0)),
          ''position_score'' \<mapsto> Pts (fst (position_factor (Num 0)))]"
    unfolding score_technical_strength_def option.case if_not_P [OF ne] Let_def
      and_then_eq_Inr sum.inject prod.inject g
    by blast
  then show ?thesis by simp
qed

text \<open>
  C9 at a 52-week position of 0, the price exactly at the 52-week low. The indicator
  engine stores the position 0 for a frame whose last close is its lowest low, and on
  that indicator set, as on any set with this entry, the position component awards 0
  points under the label \<^verbatim>\<open>Unknown\<close>, where the threshold table gives 2 points to
  every position of at most 0.3.
\<close>

theorem position_zero_scores_unknown:
  "position_factor (Num 0) = (0, Txt ''Unknown'')
   \<and> calculate_technical_indicators (Some falling_frame) ''52_week_position'' = Some (Num 0)
   \<and> (\<exists>s b. score_technical_strength (Some (calculate_technical_indicators (Some falling_frame)))
                = Inr (s, b)
          \<and> b ''position_score'' = Some (Pts 0)
          \<and> b ''52_week_status'' = Some (Txt ''Unknown''))
   \<and> score_technical_strength
         (Some [''current_price'' \<mapsto> Num 50, ''52_week_position'' \<mapsto> Num 0])
       = Inr (0, [''sma_20_status'' \<mapsto> Txt ''Below SMA20'',
                  ''sma_50_status'' \<mapsto> Txt ''Below SMA50'',
                  ''sma_200_status'' \<mapsto> Txt ''Insufficient Data'',
                  ''ma_alignment'' \<mapsto> Txt ''Bearish/Neutral'',
                  ''trend_score'' \<mapsto> Pts 0,
                  ''rsi_status'' \<mapsto> Txt ''Unknown'',
                  ''macd_status'' \<mapsto> Txt ''Bearish Signal'',
                  ''volume_status'' \<mapsto> Txt ''Normal Volume'',
                  ''bb_status'' \<mapsto> Txt ''Unknown'',
                  ''momentum_score'' \<mapsto> Pts 0,
                  ''52_week_status'' \<mapsto> Txt ''Unknown'',
                  ''position_score'' \<mapsto> Pts 0])"
proof -
  let ?t = "calculate_technical_indicators (Some falling_frame)"
  have ne: "falling_frame \<noteq> []" by (simp add: falling_frame_def)
  from technical_current_price [OF ne] have cp: "?t ''current_price'' \<noteq> Some PNone" by auto
  from technical_scorer_total [OF cp technical_numeric_entries(1-3)]
  obtain s b where sb: "score_technical_strength (Some ?t) = Inr (s, b)" by auto
  note z = position_zero_breakdown [OF falling_frame_position sb]
  have small: "score_technical_strength
         (Some [''current_price'' \<mapsto> Num 50, ''52_week_position'' \<mapsto> Num 0])
       = Inr (0, [''sma_20_status'' \<mapsto> Txt ''Below SMA20'',
                  ''sma_50_status'' \<mapsto> Txt ''Below SMA50'',
                  ''sma_200_status'' \<mapsto> Txt ''Insufficient Data'',
                  ''ma_alignment'' \<mapsto> Txt ''Bearish/Neutral'',
                  ''trend_score'' \<mapsto> Pts 0,
                  ''rsi_status'' \<mapsto> Txt ''Unknown'',
                  ''macd_status'' \<mapsto> Txt ''Bearish Signal'',
                  ''volume_status'' \<mapsto> Txt ''Normal Volume'',
                  ''bb_status'' \<mapsto> Txt ''Unknown'',
                  ''momentum_score'' \<mapsto> Pts 0,
                  ''52_week_status'' \<mapsto> Txt ''Unknown'',
                  ''position_score'' \<mapsto> Pts 0])"
    by (simp add: score_technical_strength_def and_then_def get_default_def get_def py_gt_def)
  have pf: "position_factor (Num 0) = (0, Txt ''Unknown'')" by simp
  from sb z have ex: "\<exists>s b. score_technical_strength (Some ?t) = Inr (s, b)
          \<and> b ''position_score'' = Some (Pts 0)
          \<and> b ''52_week_status'' = Some (Txt ''Unknown'')" by blast
  show ?thesis
    by (intro conjI) (rule pf, rule falling_frame_position, rule ex, rule small)
qed

end
